theory Spec2Isabelle
  imports Main
begin

section \<open>The icon generator of the browser extension\<close>

text \<open>
  The program is \<^verbatim>\<open>chrome-extension/icons/generate-icons.py\<close>: it converts four SVG
  files that lie beside the script into four PNG files, with the cairosvg library.
  Everything the script touches is made explicit in a record \<open>world\<close>: the current
  working directory, the file system, the lines printed on standard output, what
  \<^verbatim>\<open>import cairosvg\<close> does, and two logs that record the arguments of each call of
  \<^verbatim>\<open>os.system\<close> and of \<^verbatim>\<open>cairosvg.svg2png\<close> (nothing reads the logs; they are there
  to state what the script calls).

  Strings are byte strings: the non-ASCII signs that the script prints are written as
  their UTF-8 bytes.
\<close>

subsection \<open>The world\<close>

type_synonym path = string

text \<open>A file has its permission bits for the running user and its bytes.\<close>

datatype node = File (readable: bool) (writable: bool) (content: string)

text \<open>
  What \<^verbatim>\<open>import cairosvg\<close> does in the environment: it succeeds, it raises ImportError
  (the module, or a module that it imports, is not found), or it raises another
  exception (OSError, when the cairo library cannot be loaded); each exception with its
  description.
\<close>

datatype import_outcome = Imported | Import_error string | Other_error string

record world =
  cwd :: path
  files :: "path \<rightharpoonup> node"
  stdout :: "string list"
  cairosvg_import :: import_outcome
  os_system_log :: "string list"
  svg2png_log :: "(string \<times> path \<times> int \<times> int) list"

text \<open>
  What lies outside the repository is a parameter: the decoding that a text-mode
  \<^verbatim>\<open>read()\<close> applies to the bytes of a file (a list of code points, or the description
  of the UnicodeDecodeError), \<^verbatim>\<open>str.encode('utf-8')\<close>, the rasteriser behind
  \<^verbatim>\<open>cairosvg.svg2png\<close> (the PNG bytes, or the description of the exception it raises),
  and what a shell command does to the file system and to the outcome of
  \<^verbatim>\<open>import cairosvg\<close>. Every exception of these is an instance of Python's
  \<^verbatim>\<open>Exception\<close>, given by its \<^verbatim>\<open>str()\<close>.
\<close>

type_synonym pystr = "nat list"

record platform =
  text_decode :: "string \<Rightarrow> string + pystr"
  utf8_encode :: "pystr \<Rightarrow> string + string"
  rasterize :: "string \<Rightarrow> int \<Rightarrow> int \<Rightarrow> string + string"
  shell :: "string \<Rightarrow> (path \<rightharpoonup> node) \<times> import_outcome
            \<Rightarrow> (path \<rightharpoonup> node) \<times> import_outcome"

text \<open>
  Standard output: a \<^verbatim>\<open>print\<close> of a line raises when the line cannot be encoded or
  written (\<open>write_error\<close> gives the description of the exception), and the flush of the
  buffer when the interpreter exits succeeds or fails.
\<close>

record console =
  write_error :: "string \<Rightarrow> string option"
  flushes :: bool

subsection \<open>Formatting\<close>

definition digit_char :: "nat \<Rightarrow> char" where
  "digit_char d = char_of (48 + d)"

fun str_nat :: "nat \<Rightarrow> string" where
  "str_nat n = (if n < 10 then [digit_char n] else str_nat (n div 10) @ [digit_char (n mod 10)])"

declare str_nat.simps [simp del]

text \<open>\<^verbatim>\<open>str(n)\<close> and \<^verbatim>\<open>f"{n}"\<close> for a Python int.\<close>

definition str_int :: "int \<Rightarrow> string" where
  "str_int i = (if i < 0 then CHR ''-'' # str_nat (nat (- i)) else str_nat (nat i))"

definition pad3 :: "nat \<Rightarrow> string" where
  "pad3 n = [digit_char (n div 100 mod 10), digit_char (n div 10 mod 10), digit_char (n mod 10)]"

text \<open>\<^verbatim>\<open>f"{n:,}"\<close> for a non-negative int: groups of three digits, separated by commas.\<close>

fun format_commas :: "nat \<Rightarrow> string" where
  "format_commas n =
     (if n < 1000 then str_nat n else format_commas (n div 1000) @ '','' @ pad3 (n mod 1000))"

declare format_commas.simps [simp del]

definition repr_str :: "string \<Rightarrow> string" where
  "repr_str s = [CHR 0x27] @ s @ [CHR 0x27]"

definition check_mark :: string where
  "check_mark = [CHR 0xE2, CHR 0x9C, CHR 0x85]"

definition cross_mark :: string where
  "cross_mark = [CHR 0xE2, CHR 0x9D, CHR 0x8C]"

definition warning_sign :: string where
  "warning_sign = [CHR 0xE2, CHR 0x9A, CHR 0xA0, CHR 0xEF, CHR 0xB8, CHR 0x8F]"

definition palette :: string where
  "palette = [CHR 0xF0, CHR 0x9F, CHR 0x8E, CHR 0xA8]"

definition package :: string where
  "package = [CHR 0xF0, CHR 0x9F, CHR 0x93, CHR 0xA6]"

text \<open>The lines that the script prints for a job (its f-strings).\<close>

definition created_msg :: "path \<Rightarrow> int \<Rightarrow> string" where
  "created_msg output_file size' =
     ''   '' @ check_mark @ '' Created: '' @ output_file @ '' (''
     @ str_int size' @ ''x'' @ str_int size' @ '')''"

definition failed_msg :: "path \<Rightarrow> string \<Rightarrow> string" where
  "failed_msg output_file e = ''   '' @ cross_mark @ '' Failed: '' @ output_file @ '' - '' @ e"

definition not_found_msg :: "path \<Rightarrow> string" where
  "not_found_msg svg_file = ''   '' @ warning_sign @ ''  SVG not found: '' @ svg_file"

definition generating_msg :: "path \<Rightarrow> string" where
  "generating_msg png_file = package @ '' Generating '' @ png_file @ ''...''"

definition installing_msg :: string where
  "installing_msg = cross_mark @ '' cairosvg not found. Installing...''"

definition size_msg :: "path \<Rightarrow> nat \<Rightarrow> string" where
  "size_msg png_file size' = ''   '' @ png_file @ '': '' @ format_commas size' @ '' bytes''"

subsection \<open>The operating system and the library\<close>

text \<open>
  \<open>print\<close> is a \<^verbatim>\<open>print\<close> that succeeds: it adds the line to standard output.
  \<open>print_io\<close> is \<^verbatim>\<open>print\<close> on a console: it raises when the console rejects the
  line, and nothing is added then.
\<close>

definition print :: "string \<Rightarrow> world \<Rightarrow> world" where
  "print s w = w\<lparr>stdout := stdout w @ [s]\<rparr>"

definition print_io :: "console \<Rightarrow> string \<Rightarrow> world \<Rightarrow> (string + unit) \<times> world" where
  "print_io con s w =
     (case write_error con s of
        None \<Rightarrow> (Inr (), print s w)
      | Some e \<Rightarrow> (Inl e, w))"

text \<open>
  Sequencing of statements that can raise: the first exception ends the sequence, in the
  world reached so far.
\<close>

definition and_then ::
  "(string + 'a) \<times> world \<Rightarrow> ('a \<Rightarrow> world \<Rightarrow> (string + 'b) \<times> world) \<Rightarrow> (string + 'b) \<times> world" where
  "and_then r f = (case r of (Inl e, w) \<Rightarrow> (Inl e, w) | (Inr x, w) \<Rightarrow> f x w)"

text \<open>A relative path is resolved against the current working directory.\<close>

definition resolve :: "path \<Rightarrow> path \<Rightarrow> path" where
  "resolve d p = (case p of CHR ''/'' # _ \<Rightarrow> p | _ \<Rightarrow> d @ ''/'' @ p)"

definition os_path_exists :: "world \<Rightarrow> path \<Rightarrow> bool" where
  "os_path_exists w p = (files w (resolve (cwd w) p) \<noteq> None)"

definition os_path_getsize :: "world \<Rightarrow> path \<Rightarrow> string + nat" where
  "os_path_getsize w p =
     (case files w (resolve (cwd w) p) of
        None \<Rightarrow> Inl (''[Errno 2] No such file or directory: '' @ repr_str p)
      | Some n \<Rightarrow> Inr (length (content n)))"

text \<open>
  \<^verbatim>\<open>os.chdir\<close> to the directory of the running script; that directory exists, since
  the interpreter has loaded the script from it.
\<close>

definition os_chdir :: "path \<Rightarrow> world \<Rightarrow> world" where
  "os_chdir d w = w\<lparr>cwd := d\<rparr>"

text \<open>
  \<^verbatim>\<open>os.system(cmd)\<close>: the command runs in a child process, which may change the file
  system (an installation writes the files of the package) and what
  \<^verbatim>\<open>import cairosvg\<close> does afterwards. The script ignores the exit status.
\<close>

definition os_system :: "platform \<Rightarrow> string \<Rightarrow> world \<Rightarrow> world" where
  "os_system pf cmd w =
     (case shell pf cmd (files w, cairosvg_import w) of
        (f, i) \<Rightarrow> w\<lparr>os_system_log := os_system_log w @ [cmd], files := f,
                      cairosvg_import := i\<rparr>)"

text \<open>\<^verbatim>\<open>with open(p, 'r') as f: f.read()\<close>: the text of the file, or the exception.\<close>

definition open_read :: "platform \<Rightarrow> world \<Rightarrow> path \<Rightarrow> string + pystr" where
  "open_read pf w p =
     (case files w (resolve (cwd w) p) of
        None \<Rightarrow> Inl (''[Errno 2] No such file or directory: '' @ repr_str p)
      | Some n \<Rightarrow>
          if readable n then text_decode pf (content n)
          else Inl (''[Errno 13] Permission denied: '' @ repr_str p))"

text \<open>
  Writing \<open>bs\<close> to the file at \<open>p\<close>, opened for writing: a new file is created, an
  existing file keeps its permissions and gets the new content, and a file that may not
  be written raises.
\<close>

definition write_file :: "path \<Rightarrow> string \<Rightarrow> world \<Rightarrow> (string + unit) \<times> world" where
  "write_file p bs w =
     (case files w (resolve (cwd w) p) of
        None \<Rightarrow> (Inr (), w\<lparr>files := (files w)(resolve (cwd w) p \<mapsto> File True True bs)\<rparr>)
      | Some n \<Rightarrow>
          if writable n
          then (Inr (), w\<lparr>files := (files w)(resolve (cwd w) p \<mapsto> File (readable n) True bs)\<rparr>)
          else (Inl (''[Errno 13] Permission denied: '' @ repr_str p), w))"

text \<open>
  \<^verbatim>\<open>cairosvg.svg2png(bytestring=, write_to=, output_width=, output_height=)\<close>: the
  rasteriser renders the bytes at the requested width and height, and the result is
  written to \<open>write_to\<close>. When the rasteriser raises, no file is touched.
\<close>

definition svg2png ::
  "platform \<Rightarrow> string \<Rightarrow> path \<Rightarrow> int \<Rightarrow> int \<Rightarrow> world \<Rightarrow> (string + unit) \<times> world" where
  "svg2png pf bytestring write_to output_width output_height w =
     (let w1 = w\<lparr>svg2png_log :=
                    svg2png_log w @ [(bytestring, write_to, output_width, output_height)]\<rparr>
      in case rasterize pf bytestring output_width output_height of
           Inl e \<Rightarrow> (Inl e, w1)
         | Inr png \<Rightarrow> write_file write_to png w1)"

subsection \<open>The import block\<close>

text \<open>
  \<^verbatim>\<open>try: import cairosvg
except ImportError:
    print("... cairosvg not found. Installing...")
    os.system("pip3 install cairosvg")
    import cairosvg\<close>
  The handler catches ImportError only: another exception of the first import ends the
  program at once. The \<^verbatim>\<open>print\<close> in the handler and the second import are outside
  any \<^verbatim>\<open>try\<close>: an exception of either ends the program.
\<close>

definition import_cairosvg :: "console \<Rightarrow> platform \<Rightarrow> world \<Rightarrow> (string + unit) \<times> world" where
  "import_cairosvg con pf w =
     (case cairosvg_import w of
        Imported \<Rightarrow> (Inr (), w)
      | Other_error e \<Rightarrow> (Inl e, w)
      | Import_error e \<Rightarrow>
          and_then (print_io con installing_msg w) (\<lambda>u w1.
            let w2 = os_system pf ''pip3 install cairosvg'' w1
            in (case cairosvg_import w2 of
                  Imported \<Rightarrow> (Inr (), w2)
                | Import_error e2 \<Rightarrow> (Inl e2, w2)
                | Other_error e2 \<Rightarrow> (Inl e2, w2))))"

subsection \<open>generate_icon\<close>

text \<open>
  The body of the \<^verbatim>\<open>try\<close>: read the file, encode, rasterise, print the confirmation.
  The first exception ends it, in the world reached so far.
\<close>

definition generate_icon_try ::
  "platform \<Rightarrow> path \<Rightarrow> path \<Rightarrow> int \<Rightarrow> world \<Rightarrow> (string + unit) \<times> world" where
  "generate_icon_try pf svg_file output_file size' w =
     (case open_read pf w svg_file of
        Inl e \<Rightarrow> (Inl e, w)
      | Inr svg_data \<Rightarrow>
          (case utf8_encode pf svg_data of
             Inl e \<Rightarrow> (Inl e, w)
           | Inr bytestring \<Rightarrow>
               (case svg2png pf bytestring output_file size' size' w of
                  (Inl e, w1) \<Rightarrow> (Inl e, w1)
                | (Inr u, w1) \<Rightarrow>
                    (Inr (), print (created_msg output_file size') w1))))"

text \<open>The \<^verbatim>\<open>except Exception as e\<close> handler prints the failure and returns False.\<close>

definition generate_icon :: "platform \<Rightarrow> path \<Rightarrow> path \<Rightarrow> int \<Rightarrow> world \<Rightarrow> bool \<times> world" where
  "generate_icon pf svg_file output_file size' w =
     (case generate_icon_try pf svg_file output_file size' w of
        (Inr u, w1) \<Rightarrow> (True, w1)
      | (Inl e, w1) \<Rightarrow>
          (False, print (failed_msg output_file e) w1))"

subsection \<open>main\<close>

type_synonym job = "path \<times> path \<times> int"

definition icons :: "job list" where
  "icons =
     [(''icon-16.svg'', ''icon16.png'', 16),
      (''icon-32.svg'', ''icon32.png'', 32),
      (''icon-48.svg'', ''icon48.png'', 48),
      (''icon-master.svg'', ''icon128.png'', 128)]"

text \<open>One round of the conversion loop, on the world and \<open>success_count\<close>.\<close>

fun convert_body :: "platform \<Rightarrow> job \<Rightarrow> world \<times> int \<Rightarrow> world \<times> int" where
  "convert_body pf (svg_file, png_file, size') (w, success_count) =
     (if \<not> os_path_exists w svg_file
      then (print (not_found_msg svg_file) w, success_count)
      else
        (case generate_icon pf svg_file png_file size' (print (generating_msg png_file) w) of
           (True, w1) \<Rightarrow> (w1, success_count + 1)
         | (False, w1) \<Rightarrow> (w1, success_count)))"

fun convert_loop :: "platform \<Rightarrow> job list \<Rightarrow> world \<times> int \<Rightarrow> world \<times> int" where
  "convert_loop pf [] s = s"
| "convert_loop pf (j # js) s = convert_loop pf js (convert_body pf j s)"

text \<open>The summary, from \<open>success_count\<close> and \<^verbatim>\<open>len(icons)\<close>.\<close>

definition summary_line :: "int \<Rightarrow> int \<Rightarrow> string" where
  "summary_line success_count n_icons =
     (if success_count = n_icons then check_mark @ '' All icons generated successfully!''
      else warning_sign @ ''  Generated '' @ str_int success_count @ '' out of ''
           @ str_int n_icons @ '' icons'')"

text \<open>The listing of the files; an exception of \<^verbatim>\<open>os.path.getsize\<close> would end it.\<close>

fun listing_loop :: "job list \<Rightarrow> world \<Rightarrow> (string + unit) \<times> world" where
  "listing_loop [] w = (Inr (), w)"
| "listing_loop ((svg_file, png_file, sz) # js) w =
     (if os_path_exists w png_file
      then (case os_path_getsize w png_file of
              Inl e \<Rightarrow> (Inl e, w)
            | Inr size' \<Rightarrow>
                listing_loop js (print (size_msg png_file size') w))
      else listing_loop js w)"

text \<open>
  \<open>script_dir\<close> is the value of \<^verbatim>\<open>os.path.dirname(os.path.abspath(__file__))\<close>.
\<close>

definition main_prelude :: "path \<Rightarrow> world \<Rightarrow> world" where
  "main_prelude script_dir w =
     print '''' (print ''Converting SVG icons to PNG...''
       (os_chdir script_dir
         (print '''' (print (replicate 50 CHR ''='')
           (print (palette @ '' LendingPad PDF Auditor - Icon Generator'') w)))))"

definition main :: "platform \<Rightarrow> path \<Rightarrow> world \<Rightarrow> (string + unit) \<times> world" where
  "main pf script_dir w =
     (case convert_loop pf icons (main_prelude script_dir w, 0) of
        (w1, success_count) \<Rightarrow>
          listing_loop icons
            (print ''Generated files:'' (print ''''
              (print (summary_line success_count (int (length icons))) (print '''' w1)))))"

subsection \<open>The script on a console that can reject a line\<close>

text \<open>
  \<open>generate_icon\<close>, \<open>convert_loop\<close>, \<open>listing_loop\<close> and \<open>main\<close> above are the
  functions of the script when every \<^verbatim>\<open>print\<close> succeeds. The definitions below follow
  the same lines of the script with \<open>print_io\<close>: an exception of a \<^verbatim>\<open>print\<close> inside
  the \<^verbatim>\<open>try\<close> of \<open>generate_icon\<close> is caught by its handler, an exception of the
  \<^verbatim>\<open>print\<close> in the handler leaves \<open>generate_icon\<close>, and an exception of any other
  \<^verbatim>\<open>print\<close> leaves main.
\<close>

definition generate_icon_try_io ::
  "console \<Rightarrow> platform \<Rightarrow> path \<Rightarrow> path \<Rightarrow> int \<Rightarrow> world \<Rightarrow> (string + unit) \<times> world" where
  "generate_icon_try_io con pf svg_file output_file size' w =
     (case open_read pf w svg_file of
        Inl e \<Rightarrow> (Inl e, w)
      | Inr svg_data \<Rightarrow>
          (case utf8_encode pf svg_data of
             Inl e \<Rightarrow> (Inl e, w)
           | Inr bytestring \<Rightarrow>
               and_then (svg2png pf bytestring output_file size' size' w) (\<lambda>u w1.
                 print_io con (created_msg output_file size') w1)))"

definition generate_icon_io ::
  "console \<Rightarrow> platform \<Rightarrow> path \<Rightarrow> path \<Rightarrow> int \<Rightarrow> world \<Rightarrow> (string + bool) \<times> world" where
  "generate_icon_io con pf svg_file output_file size' w =
     (case generate_icon_try_io con pf svg_file output_file size' w of
        (Inr u, w1) \<Rightarrow> (Inr True, w1)
      | (Inl e, w1) \<Rightarrow>
          and_then (print_io con (failed_msg output_file e) w1) (\<lambda>u w2. (Inr False, w2)))"

fun convert_body_io ::
  "console \<Rightarrow> platform \<Rightarrow> job \<Rightarrow> world \<times> int \<Rightarrow> (string + int) \<times> world" where
  "convert_body_io con pf (svg_file, png_file, size') (w, success_count) =
     (if \<not> os_path_exists w svg_file
      then and_then (print_io con (not_found_msg svg_file) w) (\<lambda>u w1. (Inr success_count, w1))
      else
        and_then (print_io con (generating_msg png_file) w) (\<lambda>u w1.
        and_then (generate_icon_io con pf svg_file png_file size' w1) (\<lambda>ok w2.
          (Inr (if ok then success_count + 1 else success_count), w2))))"

fun convert_loop_io ::
  "console \<Rightarrow> platform \<Rightarrow> job list \<Rightarrow> world \<times> int \<Rightarrow> (string + int) \<times> world" where
  "convert_loop_io con pf [] (w, success_count) = (Inr success_count, w)"
| "convert_loop_io con pf (j # js) (w, success_count) =
     and_then (convert_body_io con pf j (w, success_count)) (\<lambda>success_count' w1.
       convert_loop_io con pf js (w1, success_count'))"

fun listing_loop_io :: "console \<Rightarrow> job list \<Rightarrow> world \<Rightarrow> (string + unit) \<times> world" where
  "listing_loop_io con [] w = (Inr (), w)"
| "listing_loop_io con ((svg_file, png_file, sz) # js) w =
     (if os_path_exists w png_file
      then (case os_path_getsize w png_file of
              Inl e \<Rightarrow> (Inl e, w)
            | Inr size' \<Rightarrow>
                and_then (print_io con (size_msg png_file size') w) (\<lambda>u w1.
                  listing_loop_io con js w1))
      else listing_loop_io con js w)"

definition main_io :: "console \<Rightarrow> platform \<Rightarrow> path \<Rightarrow> world \<Rightarrow> (string + unit) \<times> world" where
  "main_io con pf script_dir w =
     and_then (print_io con (palette @ '' LendingPad PDF Auditor - Icon Generator'') w) (\<lambda>u w.
     and_then (print_io con (replicate 50 CHR ''='') w) (\<lambda>u w.
     and_then (print_io con '''' w) (\<lambda>u w.
     and_then (print_io con ''Converting SVG icons to PNG...'' (os_chdir script_dir w)) (\<lambda>u w.
     and_then (print_io con '''' w) (\<lambda>u w.
     and_then (convert_loop_io con pf icons (w, 0)) (\<lambda>success_count w.
     and_then (print_io con '''' w) (\<lambda>u w.
     and_then (print_io con (summary_line success_count (int (length icons))) w) (\<lambda>u w.
     and_then (print_io con '''' w) (\<lambda>u w.
     and_then (print_io con ''Generated files:'' w) (\<lambda>u w.
       listing_loop_io con icons w))))))))))"

text \<open>
  The script: the import block, then \<^verbatim>\<open>main()\<close>. The exit status of the interpreter is
  120 when the flush of standard output at exit fails, otherwise 1 after an exception
  that nothing has caught, and 0 after a run that has ended without one.
\<close>

definition program :: "console \<Rightarrow> platform \<Rightarrow> path \<Rightarrow> world \<Rightarrow> (string + unit) \<times> world" where
  "program con pf script_dir w =
     and_then (import_cairosvg con pf w) (\<lambda>u w1. main_io con pf script_dir w1)"

definition exit_status :: "console \<Rightarrow> (string + unit) \<times> world \<Rightarrow> int" where
  "exit_status con r =
     (if \<not> flushes con then 120 else (case fst r of Inl e \<Rightarrow> 1 | Inr u \<Rightarrow> 0))"

subsection \<open>The outcome of each job\<close>

text \<open>
  A job is skipped when its source file does not exist, it fails when the body of the
  \<^verbatim>\<open>try\<close> in \<open>generate_icon\<close> raises, and it succeeds otherwise. \<open>outcomes\<close>
  lists the outcome of each job of a run, each job in the world that the jobs before it
  have left.
\<close>

datatype outcome = Skipped | Failed | Succeeded

fun job_outcome :: "platform \<Rightarrow> job \<Rightarrow> world \<Rightarrow> outcome" where
  "job_outcome pf (svg_file, png_file, size') w =
     (if \<not> os_path_exists w svg_file then Skipped
      else case fst (generate_icon_try pf svg_file png_file size'
                       (print (generating_msg png_file) w)) of
             Inl e \<Rightarrow> Failed
           | Inr u \<Rightarrow> Succeeded)"

fun outcomes :: "platform \<Rightarrow> job list \<Rightarrow> world \<Rightarrow> outcome list" where
  "outcomes pf [] w = []"
| "outcomes pf (j # js) w = job_outcome pf j w # outcomes pf js (fst (convert_body pf j (w, 0)))"

subsection \<open>The effect of a job on the file system\<close>

text \<open>
  The file system that a write, and one round of the loop, leave behind, as functions of
  the file system before and of the current directory \<open>c\<close>. They are proved below to
  be what \<open>write_file\<close> and \<open>convert_body\<close> do to the files of the world.
\<close>

definition write_fs :: "path \<Rightarrow> string \<Rightarrow> (path \<rightharpoonup> node) \<Rightarrow> (path \<rightharpoonup> node)" where
  "write_fs q bs f =
     (case f q of
        None \<Rightarrow> f(q \<mapsto> File True True bs)
      | Some n \<Rightarrow> if writable n then f(q \<mapsto> File (readable n) True bs) else f)"

definition job_png :: "platform \<Rightarrow> path \<Rightarrow> job \<Rightarrow> (path \<rightharpoonup> node) \<Rightarrow> string option" where
  "job_png pf c j f =
     (case j of (svg_file, png_file, size') \<Rightarrow>
        (case f (resolve c svg_file) of
           None \<Rightarrow> None
         | Some n \<Rightarrow>
             if readable n
             then (case text_decode pf (content n) of
                     Inl e \<Rightarrow> None
                   | Inr svg_data \<Rightarrow>
                       (case utf8_encode pf svg_data of
                          Inl e \<Rightarrow> None
                        | Inr bytestring \<Rightarrow>
                            (case rasterize pf bytestring size' size' of
                               Inl e \<Rightarrow> None
                             | Inr png \<Rightarrow> Some png)))
             else None))"

definition job_fs :: "platform \<Rightarrow> path \<Rightarrow> job \<Rightarrow> (path \<rightharpoonup> node) \<Rightarrow> (path \<rightharpoonup> node)" where
  "job_fs pf c j f =
     (case job_png pf c j f of
        None \<Rightarrow> f
      | Some png \<Rightarrow> write_fs (resolve c (fst (snd j))) png f)"

subsection \<open>Two example runs\<close>

text \<open>
  A platform that decodes and encodes bytes one to one, and whose rasteriser accepts one
  document. In \<open>world0\<close> the script lies in \<^verbatim>\<open>/ext/icons\<close> and is started from
  another directory: the first source is good, the second may not be read, the third is
  missing and the fourth is rejected by the rasteriser; one destination exists already.
\<close>

definition platform0 :: platform where
  "platform0 =
     \<lparr>text_decode = (\<lambda>b. Inr (map of_char b)),
      utf8_encode = (\<lambda>t. Inr (map char_of t)),
      rasterize = (\<lambda>b wd ht. if b = ''<svg/>'' then Inr (''PNG'' @ str_int wd @ ''x'' @ str_int ht)
                              else Inl ''no element found''),
      shell = (\<lambda>cmd (f, i).
                 if cmd = ''pip3 install cairosvg''
                 then (f(''/usr/lib/python3/site-packages/cairosvg/__init__.py''
                           \<mapsto> File True True ''''), Imported)
                 else (f, i))\<rparr>"

definition world0 :: world where
  "world0 =
     \<lparr>cwd = ''/home/user'',
      files = [''/ext/icons/icon-16.svg'' \<mapsto> File True True ''<svg/>'',
               ''/ext/icons/icon-32.svg'' \<mapsto> File False True ''<svg/>'',
               ''/ext/icons/icon-master.svg'' \<mapsto> File True True ''<svg'',
               ''/ext/icons/icon16.png'' \<mapsto> File True True ''old''],
      stdout = [], cairosvg_import = Imported, os_system_log = [], svg2png_log = []\<rparr>"

text \<open>In \<open>world1\<close> the four sources are good and no destination exists.\<close>

definition world1 :: world where
  "world1 =
     \<lparr>cwd = ''/ext/icons'',
      files = [''/ext/icons/icon-16.svg'' \<mapsto> File True True ''<svg/>'',
               ''/ext/icons/icon-32.svg'' \<mapsto> File True True ''<svg/>'',
               ''/ext/icons/icon-48.svg'' \<mapsto> File True True ''<svg/>'',
               ''/ext/icons/icon-master.svg'' \<mapsto> File True True ''<svg/>''],
      stdout = [], cairosvg_import = Imported, os_system_log = [], svg2png_log = []\<rparr>"

text \<open>
  In \<open>world2\<close> the module cairosvg is not installed, in \<open>world3\<close> it is installed and
  the cairo library cannot be loaded. On \<open>platform0\<close> the command
  \<^verbatim>\<open>pip3 install cairosvg\<close> installs the module and the import succeeds afterwards, on
  \<open>platform1\<close> the command fails and changes nothing, and on \<open>platform2\<close> it installs
  the module, whose import then fails on the missing cairo library.
\<close>

definition world2 :: world where
  "world2 = world1\<lparr>cairosvg_import := Import_error (''No module named '' @ repr_str ''cairosvg'')\<rparr>"

definition world3 :: world where
  "world3 = world1\<lparr>cairosvg_import := Other_error ''no library called cairo was found''\<rparr>"

definition platform1 :: platform where
  "platform1 = platform0\<lparr>shell := (\<lambda>cmd s. s)\<rparr>"

definition platform2 :: platform where
  "platform2 =
     platform0\<lparr>shell := (\<lambda>cmd (f, i).
        (f(''/usr/lib/python3/site-packages/cairosvg/__init__.py'' \<mapsto> File True True ''''),
         Other_error ''no library called cairo was found''))\<rparr>"

text \<open>
  \<open>console0\<close> accepts every line. \<open>console1\<close> encodes ASCII only: a line with a byte
  above 127 (each of the signs of the script has one) raises UnicodeEncodeError.
\<close>

definition console0 :: console where
  "console0 = \<lparr>write_error = (\<lambda>s. None), flushes = True\<rparr>"

definition console1 :: console where
  "console1 =
     \<lparr>write_error = (\<lambda>s. if list_ex (\<lambda>c. 128 \<le> (of_char c :: nat)) s
                           then Some ''ordinal not in range(128)'' else None),
      flushes = True\<rparr>"

section \<open>Properties\<close>

subsection \<open>Printing, reading and writing\<close>

lemma print_simps [simp]:
  "cwd (print s w) = cwd w"
  "files (print s w) = files w"
  "stdout (print s w) = stdout w @ [s]"
  "cairosvg_import (print s w) = cairosvg_import w"
  "os_system_log (print s w) = os_system_log w"
  "svg2png_log (print s w) = svg2png_log w"
  by (simp_all add: print_def)

lemma os_path_exists_print [simp]: "os_path_exists (print s w) p = os_path_exists w p"
  by (simp add: os_path_exists_def)

lemma os_path_getsize_print [simp]: "os_path_getsize (print s w) p = os_path_getsize w p"
  by (simp add: os_path_getsize_def)

lemma open_read_cong:
  "cwd w = cwd w' \<Longrightarrow> files w (resolve (cwd w) p) = files w' (resolve (cwd w) p)
   \<Longrightarrow> open_read pf w p = open_read pf w' p"
  by (simp add: open_read_def)

lemma write_file_cwd [simp]: "cwd (snd (write_file p bs w)) = cwd w"
  by (simp add: write_file_def split: option.splits)

lemma write_file_stdout [simp]: "stdout (snd (write_file p bs w)) = stdout w"
  by (simp add: write_file_def split: option.splits)

lemma write_file_log [simp]: "svg2png_log (snd (write_file p bs w)) = svg2png_log w"
  by (simp add: write_file_def split: option.splits)


lemma write_file_ok:
  "write_file p bs w = (Inr u, w1) \<Longrightarrow>
   \<exists>r. files w1 (resolve (cwd w) p) = Some (File r True bs)"
  by (auto simp: write_file_def split: option.splits if_splits)

lemma write_file_raise:
  "write_file p bs w = (Inl e, w1) \<Longrightarrow> w1 = w"
  by (auto simp: write_file_def split: option.splits if_splits)

lemma svg2png_cwd [simp]: "cwd (snd (svg2png pf b p wd ht w)) = cwd w"
  by (simp add: svg2png_def Let_def split: sum.splits)

lemma svg2png_stdout [simp]: "stdout (snd (svg2png pf b p wd ht w)) = stdout w"
  by (simp add: svg2png_def Let_def split: sum.splits)

lemma svg2png_log_eq [simp]:
  "svg2png_log (snd (svg2png pf b p wd ht w)) = svg2png_log w @ [(b, p, wd, ht)]"
  by (simp add: svg2png_def Let_def split: sum.splits)


lemma svg2png_ok:
  assumes "svg2png pf b p wd ht w = (Inr u, w1)"
  shows "\<exists>r png. rasterize pf b wd ht = Inr png \<and> files w1 (resolve (cwd w) p) = Some (File r True png)"
  using assms write_file_ok
  by (fastforce simp: svg2png_def Let_def split: sum.splits)

lemma svg2png_raise:
  "svg2png pf b p wd ht w = (Inl e, w1) \<Longrightarrow> files w1 = files w"
  by (auto simp: svg2png_def Let_def split: sum.splits dest!: write_file_raise)

subsection \<open>generate_icon\<close>

lemma open_read_print [simp]: "open_read pf (print s w) p = open_read pf w p"
  by (simp add: open_read_def)

lemma generate_icon_try_cwd [simp]: "cwd (snd (generate_icon_try pf s p z w)) = cwd w"
  by (simp add: generate_icon_try_def split_beta split: sum.splits)

lemma generate_icon_cwd [simp]: "cwd (snd (generate_icon pf s p z w)) = cwd w"
  by (simp add: generate_icon_def split_beta split: sum.splits)


lemma generate_icon_files:
  "files (snd (generate_icon pf s p z w)) = files (snd (generate_icon_try pf s p z w))"
  by (simp add: generate_icon_def split_beta split: sum.splits)

lemma generate_icon_fst:
  "fst (generate_icon pf s p z w) = (\<not> isl (fst (generate_icon_try pf s p z w)))"
  by (simp add: generate_icon_def split_beta split: sum.splits)

lemma generate_icon_try_raise:
  assumes "generate_icon_try pf s p z w = (Inl e, w1)"
  shows "files w1 = files w"
  using assms svg2png_raise
  by (fastforce simp: generate_icon_try_def split: sum.splits prod.splits)

lemma generate_icon_try_ok:
  assumes "generate_icon_try pf s p z w = (Inr u, w1)"
  shows "\<exists>t b r png. open_read pf w s = Inr t \<and> utf8_encode pf t = Inr b
           \<and> rasterize pf b z z = Inr png
           \<and> files w1 (resolve (cwd w) p) = Some (File r True png)"
  using assms svg2png_ok
  by (fastforce simp: generate_icon_try_def split: sum.splits prod.splits)

subsection \<open>One round of the loop\<close>

lemma generate_icon_stdout_raise:
  assumes "generate_icon_try pf s p z w = (Inl e, w1)"
  shows "generate_icon pf s p z w = (False, print (failed_msg p e) w1)"
  using assms by (simp add: generate_icon_def)

lemma generate_icon_try_stdout:
  "\<exists>ls. stdout (snd (generate_icon_try pf s p z w)) = stdout w @ ls"
  by (simp add: generate_icon_try_def split_beta split: sum.splits)

lemma generate_icon_stdout:
  "\<exists>ls. stdout (snd (generate_icon pf s p z w)) = stdout w @ ls"
proof -
  obtain ls where "stdout (snd (generate_icon_try pf s p z w)) = stdout w @ ls"
    using generate_icon_try_stdout by blast
  then show ?thesis
    by (simp add: generate_icon_def split_beta split: sum.splits)
qed

lemma convert_body_cwd [simp]: "cwd (fst (convert_body pf j (w, n))) = cwd w"
proof (cases j)
  case (fields s p z)
  have "cwd (snd (generate_icon pf s p z (print (generating_msg p) w))) = cwd w" by simp
  then show ?thesis using fields
    by (simp add: split_beta split: bool.splits)
qed


lemma convert_body_count:
  "snd (convert_body pf j (w, n)) = (if job_outcome pf j w = Succeeded then n + 1 else n)"
proof (cases j)
  case (fields s p z)
  then show ?thesis
    by (simp add: split_beta generate_icon_fst split: bool.splits sum.splits)
qed

lemma convert_body_fst_count:
  "fst (convert_body pf j (w, n)) = fst (convert_body pf j (w, m))"
  by (cases j) (simp add: split_beta split: bool.splits)

lemma convert_loop_cwd [simp]: "cwd (fst (convert_loop pf js (w, n))) = cwd w"
proof (induction js arbitrary: w n)
  case Nil
  show ?case by simp
next
  case (Cons j js)
  obtain w1 n1 where b: "convert_body pf j (w, n) = (w1, n1)" by (cases "convert_body pf j (w, n)")
  have "cwd w1 = cwd w" using convert_body_cwd [of pf j w n] b by simp
  then show ?case using Cons.IH [of w1 n1] b by simp
qed

subsection \<open>The conversion loop\<close>


lemma convert_body_stdout:
  "\<exists>ls. stdout (fst (convert_body pf j (w, n))) = stdout w @ ls"
proof (cases j)
  case (fields s p z)
  obtain ls where "stdout (snd (generate_icon pf s p z (print (generating_msg p) w)))
                   = stdout (print (generating_msg p) w) @ ls"
    using generate_icon_stdout by blast
  then show ?thesis using fields
    by (simp add: split_beta split: bool.splits)
qed

lemma convert_loop_stdout:
  "\<exists>ls. stdout (fst (convert_loop pf js (w, n))) = stdout w @ ls"
proof (induction js arbitrary: w n)
  case Nil
  show ?case by simp
next
  case (Cons j js)
  obtain w1 n1 where b: "convert_body pf j (w, n) = (w1, n1)" by (cases "convert_body pf j (w, n)")
  obtain l1 where l1: "stdout w1 = stdout w @ l1"
    using convert_body_stdout [of pf j w n] b by auto
  obtain l2 where "stdout (fst (convert_loop pf js (w1, n1))) = stdout w1 @ l2"
    using Cons.IH by blast
  then show ?case using b l1 by simp
qed

lemma convert_loop_fst_count:
  "fst (convert_loop pf js (w, n)) = fst (convert_loop pf js (w, m))"
proof (induction js arbitrary: w n m)
  case Nil
  show ?case by simp
next
  case (Cons j js)
  obtain w1 n1 where b: "convert_body pf j (w, n) = (w1, n1)" by (cases "convert_body pf j (w, n)")
  obtain w2 m1 where b2: "convert_body pf j (w, m) = (w2, m1)" by (cases "convert_body pf j (w, m)")
  have "w1 = w2" using convert_body_fst_count [of pf j w n m] b b2 by simp
  then show ?case using b b2 Cons.IH [of w1 n1 m1] by simp
qed

lemma convert_loop_count:
  "snd (convert_loop pf js (w, n))
   = n + int (length (filter (\<lambda>x. x = Succeeded) (outcomes pf js w)))"
proof (induction js arbitrary: w n)
  case Nil
  show ?case by simp
next
  case (Cons j js)
  obtain w1 n1 where b: "convert_body pf j (w, n) = (w1, n1)" by (cases "convert_body pf j (w, n)")
  have w1: "w1 = fst (convert_body pf j (w, 0))"
    using convert_body_fst_count [of pf j w n 0] b by simp
  have n1: "n1 = (if job_outcome pf j w = Succeeded then n + 1 else n)"
    using convert_body_count [of pf j w n] b by simp
  show ?case using Cons.IH [of w1 n1] b w1 n1 by simp
qed

lemma length_outcomes [simp]: "length (outcomes pf js w) = length js"
  by (induction js arbitrary: w) simp_all

subsection \<open>Skipped jobs, the listing and main\<close>

lemma convert_body_skip:
  assumes "\<not> os_path_exists w s"
  shows "convert_body pf (s, p, z) (w, n) = (print (not_found_msg s) w, n)"
  using assms by simp


lemma listing_loop_cwd [simp]: "cwd (snd (listing_loop js w)) = cwd w"
  by (induction js w rule: listing_loop.induct) (simp_all split: sum.splits)

lemma listing_loop_files [simp]: "files (snd (listing_loop js w)) = files w"
  by (induction js w rule: listing_loop.induct) (simp_all split: sum.splits)

lemma listing_loop_stdout: "\<exists>ls. stdout (snd (listing_loop js w)) = stdout w @ ls"
proof (induction js w rule: listing_loop.induct)
  case (1 w)
  show ?case by simp
next
  case (2 svg_file png_file sz js w)
  show ?case
  proof (cases "os_path_exists w png_file")
    case False
    then show ?thesis using 2 by simp
  next
    case True
    show ?thesis
    proof (cases "os_path_getsize w png_file")
      case (Inl e)
      then show ?thesis using True by simp
    next
      case (Inr k)
      obtain ls where "stdout (snd (listing_loop js (print (size_msg png_file k) w)))
                       = stdout (print (size_msg png_file k) w) @ ls"
        using "2.IH"(1) [OF True Inr] by blast
      then show ?thesis using True Inr by simp
    qed
  qed
qed

lemma listing_loop_no_raise: "fst (listing_loop js w) = Inr ()"
proof (induction js w rule: listing_loop.induct)
  case (1 w)
  show ?case by simp
next
  case (2 svg_file png_file sz js w)
  show ?case
  proof (cases "os_path_exists w png_file")
    case False
    then show ?thesis using 2 by simp
  next
    case True
    then obtain k where k: "os_path_getsize w png_file = Inr k"
      by (auto simp: os_path_exists_def os_path_getsize_def)
    show ?thesis using True k "2.IH"(1) [OF True k] by simp
  qed
qed

lemma main_prelude_simps [simp]:
  "cwd (main_prelude d w) = d"
  "files (main_prelude d w) = files w"
  "svg2png_log (main_prelude d w) = svg2png_log w"
  "stdout (main_prelude d w)
   = stdout w @ [palette @ '' LendingPad PDF Auditor - Icon Generator'', replicate 50 CHR ''='',
                 '''', ''Converting SVG icons to PNG...'', '''']"
  by (simp_all add: main_prelude_def os_chdir_def print_def)

lemma main_files:
  "files (snd (main pf d w)) = files (fst (convert_loop pf icons (main_prelude d w, 0)))"
  by (simp add: main_def split_beta)

lemma main_cwd [simp]: "cwd (snd (main pf d w)) = d"
  by (simp add: main_def split_beta)

lemma resolve_icons [simp]:
  "resolve d ''icon-16.svg'' = d @ ''/icon-16.svg''"
  "resolve d ''icon-32.svg'' = d @ ''/icon-32.svg''"
  "resolve d ''icon-48.svg'' = d @ ''/icon-48.svg''"
  "resolve d ''icon-master.svg'' = d @ ''/icon-master.svg''"
  "resolve d ''icon16.png'' = d @ ''/icon16.png''"
  "resolve d ''icon32.png'' = d @ ''/icon32.png''"
  "resolve d ''icon48.png'' = d @ ''/icon48.png''"
  "resolve d ''icon128.png'' = d @ ''/icon128.png''"
  by (simp_all add: resolve_def)

lemma icons_distinct_dst: "distinct (map (\<lambda>(s', p', z'). resolve d p') icons)"
  by (simp add: icons_def)

lemma icons_src_not_dst:
  "(s, p, z) \<in> set icons \<Longrightarrow> (s', p', z') \<in> set icons \<Longrightarrow> resolve d p' \<noteq> resolve d s"
  by (auto simp: icons_def)

lemma icons_resolve: "(s, p, z) \<in> set icons \<Longrightarrow> resolve d s = d @ ''/'' @ s \<and> resolve d p = d @ ''/'' @ p"
  by (auto simp: icons_def)

subsection \<open>Claims\<close>





lemma length_icons [simp]: "length icons = 4"
  by (simp add: icons_def)

lemma main_stdout:
  "\<exists>listing. stdout (snd (main pf d w))
     = stdout (fst (convert_loop pf icons (main_prelude d w, 0)))
       @ ['''', summary_line (snd (convert_loop pf icons (main_prelude d w, 0))) 4,
          '''', ''Generated files:''] @ listing"
proof -
  let ?r = "convert_loop pf icons (main_prelude d w, 0)"
  let ?w = "print ''Generated files:'' (print ''''
              (print (summary_line (snd ?r) 4) (print '''' (fst ?r))))"
  obtain ls where "stdout (snd (listing_loop icons ?w)) = stdout ?w @ ls"
    using listing_loop_stdout by blast
  then show ?thesis
    by (simp add: main_def split_beta)
qed

lemma str_int_digit: "0 \<le> i \<Longrightarrow> i < 10 \<Longrightarrow> str_int i = [digit_char (nat i)]"
  by (simp add: str_int_def str_nat.simps)

lemma count_succeeded_le: "length (filter P (outcomes pf js w)) \<le> length js"
  using length_filter_le [of P "outcomes pf js w"] by simp

text \<open>
  C3. The line that main prints after the loop (between two empty lines, before the
  listing) is the summary: it is the line "All icons generated successfully!" exactly
  when the success counter equals 4, the number of jobs; otherwise it is the line
  "Generated n out of 4 icons" with the counter n.
\<close>

theorem summary_reports_the_counter:
  "(let (w1, success_count) = convert_loop pf icons (main_prelude script_dir w, 0)
    in (\<exists>listing. stdout (snd (main pf script_dir w))
          = stdout w1 @ ['''', summary_line success_count 4, '''', ''Generated files:'']
            @ listing)
       \<and> (summary_line success_count 4 = check_mark @ '' All icons generated successfully!''
            \<longleftrightarrow> success_count = 4)
       \<and> (success_count \<noteq> 4 \<longrightarrow>
            summary_line success_count 4
            = warning_sign @ ''  Generated '' @ str_int success_count @ '' out of 4 icons''))"
proof -
  have "str_int 4 = ''4''"
    by code_simp
  then show ?thesis
    using main_stdout [of pf script_dir w]
    by (simp add: split_beta summary_line_def check_mark_def warning_sign_def)
qed

lemmas run_defs = main_def main_prelude_def icons_def print_def os_chdir_def os_path_exists_def
  os_path_getsize_def resolve_def generate_icon_def generate_icon_try_def open_read_def
  svg2png_def write_file_def platform0_def char_of_eq_iff

lemma world0_count:
  "snd (convert_loop platform0 icons (main_prelude ''/ext/icons'' world0, 0)) = 1"
  by (simp add: run_defs world0_def)

lemma world1_count:
  "snd (convert_loop platform0 icons (main_prelude ''/ext/icons'' world1, 0)) = 4"
  by (simp add: run_defs world1_def)

lemma summary_4: "str_int 4 = ''4''"
  by code_simp

lemma world0_outcomes:
  "outcomes platform0 icons (main_prelude ''/ext/icons'' world0)
   = [Succeeded, Failed, Skipped, Failed]"
  by (simp add: run_defs world0_def)

theorem summary_reports_the_counter_witness:
  "snd (convert_loop platform0 icons (main_prelude ''/ext/icons'' world0, 0)) \<noteq> 4
   \<and> summary_line 1 4 = warning_sign @ ''  Generated 1 out of 4 icons''
   \<and> summary_line 4 4 = check_mark @ '' All icons generated successfully!''
   \<and> (\<exists>listing. stdout (snd (main platform0 ''/ext/icons'' world0))
         = stdout (fst (convert_loop platform0 icons (main_prelude ''/ext/icons'' world0, 0)))
           @ ['''', warning_sign @ ''  Generated 1 out of 4 icons'', '''', ''Generated files:'']
           @ listing)
   \<and> (\<exists>listing. stdout (snd (main platform0 ''/ext/icons'' world1))
         = stdout (fst (convert_loop platform0 icons (main_prelude ''/ext/icons'' world1, 0)))
           @ ['''', check_mark @ '' All icons generated successfully!'', '''',
              ''Generated files:'']
           @ listing)"
proof -
  have s1: "str_int 1 = ''1''" by code_simp
  have w: "summary_line 1 4 = warning_sign @ ''  Generated 1 out of 4 icons''"
    by (simp add: summary_line_def s1 summary_4)
  have c: "summary_line 4 4 = check_mark @ '' All icons generated successfully!''"
    by (simp add: summary_line_def)
  have t0: "\<exists>listing. stdout (snd (main platform0 ''/ext/icons'' world0))
         = stdout (fst (convert_loop platform0 icons (main_prelude ''/ext/icons'' world0, 0)))
           @ ['''', summary_line 1 4, '''', ''Generated files:''] @ listing"
    using summary_reports_the_counter [of platform0 "''/ext/icons''" world0]
    by (auto simp: split_beta world0_count)
  have t1: "\<exists>listing. stdout (snd (main platform0 ''/ext/icons'' world1))
         = stdout (fst (convert_loop platform0 icons (main_prelude ''/ext/icons'' world1, 0)))
           @ ['''', summary_line 4 4, '''', ''Generated files:''] @ listing"
    using summary_reports_the_counter [of platform0 "''/ext/icons''" world1]
    by (auto simp: split_beta world1_count)
  show ?thesis
    using t0 t1 unfolding w c by (simp add: world0_count)
qed

text \<open>
  C4. The success counter that main reports is the number of jobs of the run that were
  neither skipped nor failed; it lies between 0 and 4, the number of jobs. One round of
  the loop leaves the counter or adds 1 to it, and it adds 1 exactly for a job that
  succeeds.
\<close>

theorem success_count_is_number_of_succeeded_jobs:
  "(let success_count = snd (convert_loop pf icons (main_prelude script_dir w, 0))
    in success_count
         = int (length (filter (\<lambda>x. x \<noteq> Skipped \<and> x \<noteq> Failed)
                          (outcomes pf icons (main_prelude script_dir w))))
       \<and> 0 \<le> success_count \<and> success_count \<le> 4
       \<and> summary_line success_count 4 \<in> set (stdout (snd (main pf script_dir w))))
   \<and> (snd (convert_body pf j (w', n)) = n \<or> snd (convert_body pf j (w', n)) = n + 1)
   \<and> (snd (convert_body pf j (w', n)) = n + 1 \<longleftrightarrow> job_outcome pf j w' = Succeeded)"
proof -
  let ?w = "main_prelude script_dir w"
  have p: "(\<lambda>x. x \<noteq> Skipped \<and> x \<noteq> Failed) = (\<lambda>x. x = Succeeded)"
  proof
    fix x show "(x \<noteq> Skipped \<and> x \<noteq> Failed) = (x = Succeeded)" by (cases x) simp_all
  qed
  have c: "snd (convert_loop pf icons (?w, 0))
           = int (length (filter (\<lambda>x. x = Succeeded) (outcomes pf icons ?w)))"
    using convert_loop_count [of pf icons ?w 0] by simp
  have le: "length (filter (\<lambda>x. x = Succeeded) (outcomes pf icons ?w)) \<le> 4"
    using count_succeeded_le [of "\<lambda>x. x = Succeeded" pf icons ?w] by simp
  obtain listing where "stdout (snd (main pf script_dir w))
     = stdout (fst (convert_loop pf icons (?w, 0)))
       @ ['''', summary_line (snd (convert_loop pf icons (?w, 0))) 4,
          '''', ''Generated files:''] @ listing"
    using main_stdout by blast
  then have m: "summary_line (snd (convert_loop pf icons (?w, 0))) 4
                \<in> set (stdout (snd (main pf script_dir w)))"
    by simp
  show ?thesis
    using c le m by (simp add: Let_def p convert_body_count)
qed

theorem success_count_is_number_of_succeeded_jobs_witness:
  "snd (convert_loop platform0 icons (main_prelude ''/ext/icons'' world0, 0)) = 1
   \<and> length (filter (\<lambda>x. x \<noteq> Skipped \<and> x \<noteq> Failed) [Succeeded, Failed, Skipped, Failed]) = 1
   \<and> summary_line 1 4 \<in> set (stdout (snd (main platform0 ''/ext/icons'' world0)))"
proof -
  have "(let success_count = snd (convert_loop platform0 icons (main_prelude ''/ext/icons'' world0, 0))
    in success_count
         = int (length (filter (\<lambda>x. x \<noteq> Skipped \<and> x \<noteq> Failed)
                          (outcomes platform0 icons (main_prelude ''/ext/icons'' world0))))
       \<and> 0 \<le> success_count \<and> success_count \<le> 4
       \<and> summary_line success_count 4
           \<in> set (stdout (snd (main platform0 ''/ext/icons'' world0))))"
    using success_count_is_number_of_succeeded_jobs
      [of platform0 "''/ext/icons''" world0 "(''icon-48.svg'', ''icon48.png'', 48)" world0 0]
    by (rule conjunct1)
  then show ?thesis
    by (simp add: Let_def world0_outcomes world0_count)
qed

lemma generate_icon_try_log:
  "svg2png_log (snd (generate_icon_try pf s p z w)) = svg2png_log w
   \<or> (\<exists>b. svg2png_log (snd (generate_icon_try pf s p z w)) = svg2png_log w @ [(b, p, z, z)])"
  by (simp add: generate_icon_try_def split_beta split: sum.splits)

lemma generate_icon_log:
  "svg2png_log (snd (generate_icon pf s p z w)) = svg2png_log (snd (generate_icon_try pf s p z w))"
  by (simp add: generate_icon_def split_beta split: sum.splits)

lemma convert_body_log:
  "svg2png_log (fst (convert_body pf (s, p, z) (w, n))) = svg2png_log w
   \<or> (\<exists>b. svg2png_log (fst (convert_body pf (s, p, z) (w, n))) = svg2png_log w @ [(b, p, z, z)])"
  using generate_icon_try_log [of pf s p z "print (generating_msg p) w"]
  by (simp add: split_beta generate_icon_log split: bool.splits)

lemma convert_loop_log:
  "\<exists>calls. svg2png_log (fst (convert_loop pf js (w, n))) = svg2png_log w @ calls
     \<and> (\<forall>(b, write_to, wd, ht) \<in> set calls. wd = ht \<and> (\<exists>s. (s, write_to, wd) \<in> set js))"
proof (induction js arbitrary: w n)
  case Nil
  show ?case by simp
next
  case (Cons j js)
  obtain s p z where j: "j = (s, p, z)" by (cases j)
  obtain w1 n1 where b: "convert_body pf j (w, n) = (w1, n1)" by (cases "convert_body pf j (w, n)")
  obtain c1 where c1: "svg2png_log w1 = svg2png_log w @ c1"
    and c1': "c1 = [] \<or> (\<exists>b. c1 = [(b, p, z, z)])"
    using convert_body_log [of pf s p z w n] b j by auto
  obtain c2 where c2: "svg2png_log (fst (convert_loop pf js (w1, n1))) = svg2png_log w1 @ c2"
    and c2': "\<forall>(b, write_to, wd, ht) \<in> set c2. wd = ht \<and> (\<exists>s. (s, write_to, wd) \<in> set js)"
    using Cons.IH [of w1 n1] by blast
  have "svg2png_log (fst (convert_loop pf (j # js) (w, n))) = svg2png_log w @ (c1 @ c2)"
    using b c1 c2 by simp
  moreover have "\<forall>(b, write_to, wd, ht) \<in> set (c1 @ c2).
                   wd = ht \<and> (\<exists>s. (s, write_to, wd) \<in> set (j # js))"
    using c1' c2' j by auto
  ultimately show ?case by blast
qed

lemma listing_loop_log [simp]: "svg2png_log (snd (listing_loop js w)) = svg2png_log w"
  by (induction js w rule: listing_loop.induct) (simp_all split: sum.splits)

lemma main_log:
  "svg2png_log (snd (main pf d w))
   = svg2png_log (fst (convert_loop pf icons (main_prelude d w, 0)))"
  by (simp add: main_def split_beta)

text \<open>
  C5. The batch is the list of four jobs with the sizes 16, 32, 48 and 128. Every call
  of the rasteriser in a run of main has its width equal to its height, and both are the
  size of the job whose destination it writes. When \<open>generate_icon\<close> returns True, the
  file at the destination holds what the rasteriser has returned for that width and
  height.
\<close>

theorem four_jobs_rendered_square:
  "map (\<lambda>(s, p, z). z) icons = [16, 32, 48, 128]
   \<and> (\<exists>calls. svg2png_log (snd (main pf script_dir w)) = svg2png_log w @ calls
        \<and> (\<forall>(b, write_to, wd, ht) \<in> set calls.
              wd = ht \<and> (\<exists>s. (s, write_to, wd) \<in> set icons)))
   \<and> (fst (generate_icon pf svg_file png_file size' w') \<longrightarrow>
        (\<exists>b r png. rasterize pf b size' size' = Inr png
           \<and> files (snd (generate_icon pf svg_file png_file size' w'))
                (resolve (cwd w') png_file) = Some (File r True png)))"
proof (intro conjI impI)
  show "map (\<lambda>(s, p, z). z) icons = [16, 32, 48, 128]"
    by (simp add: icons_def)
next
  show "\<exists>calls. svg2png_log (snd (main pf script_dir w)) = svg2png_log w @ calls
        \<and> (\<forall>(b, write_to, wd, ht) \<in> set calls.
              wd = ht \<and> (\<exists>s. (s, write_to, wd) \<in> set icons))"
    using convert_loop_log [of pf icons "main_prelude script_dir w" 0]
    by (simp add: main_log)
next
  assume "fst (generate_icon pf svg_file png_file size' w')"
  then have "\<not> isl (fst (generate_icon_try pf svg_file png_file size' w'))"
    by (simp add: generate_icon_fst)
  then have "fst (generate_icon_try pf svg_file png_file size' w') = Inr ()"
    by (cases "fst (generate_icon_try pf svg_file png_file size' w')") simp_all
  then obtain w1 where "generate_icon_try pf svg_file png_file size' w' = (Inr (), w1)"
    by (cases "generate_icon_try pf svg_file png_file size' w'") simp
  then show "\<exists>b r png. rasterize pf b size' size' = Inr png
           \<and> files (snd (generate_icon pf svg_file png_file size' w'))
                (resolve (cwd w') png_file) = Some (File r True png)"
    using generate_icon_try_ok [of pf svg_file png_file size' w' "()" w1]
    by (auto simp: generate_icon_files)
qed

lemma world0_log:
  "svg2png_log (snd (main platform0 ''/ext/icons'' world0))
   = [(''<svg/>'', ''icon16.png'', 16, 16), (''<svg'', ''icon128.png'', 128, 128)]"
  by (simp add: run_defs world0_def main_log)

theorem four_jobs_rendered_square_witness:
  "fst (generate_icon platform0 ''icon-16.svg'' ''icon16.png'' 16
          (main_prelude ''/ext/icons'' world0))
   \<and> (\<exists>b r png. rasterize platform0 b 16 16 = Inr png
         \<and> files (snd (generate_icon platform0 ''icon-16.svg'' ''icon16.png'' 16
                          (main_prelude ''/ext/icons'' world0)))
              ''/ext/icons/icon16.png'' = Some (File r True png))
   \<and> svg2png_log (snd (main platform0 ''/ext/icons'' world0))
       = svg2png_log world0
         @ [(''<svg/>'', ''icon16.png'', 16, 16), (''<svg'', ''icon128.png'', 128, 128)]"
proof -
  let ?w = "main_prelude ''/ext/icons'' world0"
  have h: "fst (generate_icon platform0 ''icon-16.svg'' ''icon16.png'' 16 ?w)"
    by (simp add: run_defs world0_def split_beta)
  have "fst (generate_icon platform0 ''icon-16.svg'' ''icon16.png'' 16 ?w) \<longrightarrow>
        (\<exists>b r png. rasterize platform0 b 16 16 = Inr png
           \<and> files (snd (generate_icon platform0 ''icon-16.svg'' ''icon16.png'' 16 ?w))
                (resolve (cwd ?w) ''icon16.png'') = Some (File r True png))"
    using four_jobs_rendered_square
      [of platform0 "''/ext/icons''" world0 "''icon-16.svg''" "''icon16.png''" 16 ?w]
    by blast
  then have "\<exists>b r png. rasterize platform0 b 16 16 = Inr png
           \<and> files (snd (generate_icon platform0 ''icon-16.svg'' ''icon16.png'' 16 ?w))
                ''/ext/icons/icon16.png'' = Some (File r True png)"
    using h by simp
  moreover have "svg2png_log world0 = []" by (simp add: world0_def)
  ultimately show ?thesis using h world0_log by simp
qed

subsection \<open>The effect of the loop on the file system\<close>

lemma files_write_file:
  "files (snd (write_file p bs w)) = write_fs (resolve (cwd w) p) bs (files w)"
  by (simp add: write_file_def write_fs_def split: option.splits)

lemma files_svg2png:
  "files (snd (svg2png pf b p wd ht w))
   = (case rasterize pf b wd ht of Inl e \<Rightarrow> files w
      | Inr png \<Rightarrow> write_fs (resolve (cwd w) p) png (files w))"
  by (simp add: svg2png_def Let_def files_write_file split: sum.splits)

lemma job_png_eq:
  "job_png pf (cwd w) (s, p, z) (files w)
   = (case open_read pf w s of
        Inl e \<Rightarrow> None
      | Inr t \<Rightarrow>
          (case utf8_encode pf t of
             Inl e \<Rightarrow> None
           | Inr b \<Rightarrow> (case rasterize pf b z z of Inl e \<Rightarrow> None | Inr png \<Rightarrow> Some png)))"
  by (simp add: job_png_def open_read_def split: option.splits)

lemma files_generate_icon_try:
  "files (snd (generate_icon_try pf s p z w)) = job_fs pf (cwd w) (s, p, z) (files w)"
proof (cases "open_read pf w s")
  case (Inl e)
  then show ?thesis by (simp add: generate_icon_try_def job_fs_def job_png_eq)
next
  case t: (Inr t)
  show ?thesis
  proof (cases "utf8_encode pf t")
    case (Inl e)
    then show ?thesis using t by (simp add: generate_icon_try_def job_fs_def job_png_eq)
  next
    case b: (Inr b)
    have "files (snd (generate_icon_try pf s p z w)) = files (snd (svg2png pf b p z z w))"
      using t b by (simp add: generate_icon_try_def split_beta split: sum.splits)
    then show ?thesis
      using t b by (simp add: files_svg2png job_fs_def job_png_eq split: sum.splits)
  qed
qed

lemma files_convert_body:
  "files (fst (convert_body pf j (w, n))) = job_fs pf (cwd w) j (files w)"
proof (cases j)
  case (fields s p z)
  show ?thesis
  proof (cases "os_path_exists w s")
    case True
    then show ?thesis using fields
      by (simp add: split_beta generate_icon_files files_generate_icon_try split: bool.splits)
  next
    case False
    then show ?thesis using fields
      by (simp add: job_fs_def job_png_def os_path_exists_def)
  qed
qed

lemma files_convert_loop:
  "files (fst (convert_loop pf js (w, n))) = fold (job_fs pf (cwd w)) js (files w)"
proof (induction js arbitrary: w n)
  case Nil
  show ?case by simp
next
  case (Cons j js)
  obtain w1 n1 where b: "convert_body pf j (w, n) = (w1, n1)" by (cases "convert_body pf j (w, n)")
  have "cwd w1 = cwd w" using convert_body_cwd [of pf j w n] b by simp
  moreover have "files w1 = job_fs pf (cwd w) j (files w)"
    using files_convert_body [of pf j w n] b by simp
  ultimately show ?case using Cons.IH [of w1 n1] b by simp
qed

lemma write_fs_other: "q' \<noteq> q \<Longrightarrow> write_fs q bs f q' = f q'"
  by (simp add: write_fs_def split: option.splits)

lemma write_fs_idem: "write_fs q bs (write_fs q bs f) = write_fs q bs f"
  by (auto simp: write_fs_def split: option.splits)

lemma write_fs_at: "f q = g q \<Longrightarrow> write_fs q bs f q = write_fs q bs g q"
  by (simp add: write_fs_def split: option.splits)

lemma job_png_cong:
  "f (resolve c s) = g (resolve c s) \<Longrightarrow> job_png pf c (s, p, z) f = job_png pf c (s, p, z) g"
  by (simp add: job_png_def)

lemma job_fs_frame: "q \<noteq> resolve c p \<Longrightarrow> job_fs pf c (s, p, z) f q = f q"
  by (simp add: job_fs_def write_fs_other split: option.splits)

lemma job_fs_local:
  assumes "f (resolve c s) = g (resolve c s)" and "f (resolve c p) = g (resolve c p)"
  shows "job_fs pf c (s, p, z) f (resolve c p) = job_fs pf c (s, p, z) g (resolve c p)"
proof -
  have "job_png pf c (s, p, z) f = job_png pf c (s, p, z) g"
    using assms(1) by (rule job_png_cong)
  then show ?thesis
    using assms(2) write_fs_at [of f "resolve c p" g]
    by (simp add: job_fs_def split: option.splits)
qed

lemma job_fs_idem:
  assumes "resolve c s \<noteq> resolve c p"
  shows "job_fs pf c (s, p, z) (job_fs pf c (s, p, z) f) = job_fs pf c (s, p, z) f"
proof -
  have "job_fs pf c (s, p, z) f (resolve c s) = f (resolve c s)"
    using assms by (simp add: job_fs_frame)
  then have "job_png pf c (s, p, z) (job_fs pf c (s, p, z) f) = job_png pf c (s, p, z) f"
    by (rule job_png_cong)
  then show ?thesis
    by (cases "job_png pf c (s, p, z) f") (simp_all add: job_fs_def write_fs_idem)
qed

lemma fold_job_fs_frame:
  assumes "\<forall>(s, p, z) \<in> set js. q \<noteq> resolve c p"
  shows "fold (job_fs pf c) js f q = f q"
  using assms
proof (induction js arbitrary: f)
  case Nil
  show ?case by simp
next
  case (Cons j js)
  obtain s p z where j: "j = (s, p, z)" by (cases j)
  have "fold (job_fs pf c) js (job_fs pf c j f) q = job_fs pf c j f q"
    using Cons.prems by (intro Cons.IH) simp
  also have "\<dots> = f q" using Cons.prems j by (simp add: job_fs_frame)
  finally show ?case by simp
qed

lemma fold_job_fs_fixed:
  assumes "\<forall>j \<in> set js. job_fs pf c j f = f"
  shows "fold (job_fs pf c) js f = f"
  using assms by (induction js) simp_all

lemma job_fs_fixed_iff:
  "job_fs pf c (s, p, z) f = f \<longleftrightarrow> job_fs pf c (s, p, z) f (resolve c p) = f (resolve c p)"
proof
  assume "job_fs pf c (s, p, z) f = f"
  then show "job_fs pf c (s, p, z) f (resolve c p) = f (resolve c p)" by simp
next
  assume a: "job_fs pf c (s, p, z) f (resolve c p) = f (resolve c p)"
  show "job_fs pf c (s, p, z) f = f"
  proof
    fix q show "job_fs pf c (s, p, z) f q = f q"
      using a job_fs_frame [of q c p pf s z f] by (cases "q = resolve c p") simp_all
  qed
qed

lemma fold_job_fs_settles:
  assumes "distinct (map (\<lambda>(s, p, z). resolve c p) js)"
    and "\<forall>(s, p, z) \<in> set js. \<forall>(s', p', z') \<in> set js. resolve c p' \<noteq> resolve c s"
    and "j \<in> set js"
  shows "job_fs pf c j (fold (job_fs pf c) js f) = fold (job_fs pf c) js f"
  using assms
proof (induction js arbitrary: f)
  case Nil
  then show ?case by simp
next
  case (Cons k js)
  obtain s p z where k: "k = (s, p, z)" by (cases k)
  let ?f1 = "job_fs pf c k f"
  let ?g = "fold (job_fs pf c) js ?f1"
  show ?case
  proof (cases "j \<in> set js")
    case True
    have "job_fs pf c j ?g = ?g"
      using Cons.prems True by (intro Cons.IH) auto
    then show ?thesis by simp
  next
    case False
    then have jk: "j = k" using Cons.prems(3) by simp
    have sp: "resolve c s \<noteq> resolve c p" using Cons.prems(2) k by auto
    have notin: "resolve c p \<notin> (\<lambda>(s, p, z). resolve c p) ` set js"
      using Cons.prems(1) k by simp
    have nd: "\<forall>(s', p', z') \<in> set js. resolve c p \<noteq> resolve c p'"
    proof (clarify)
      fix s' p' z'
      assume "(s', p', z') \<in> set js" and e: "resolve c p = resolve c p'"
      then have "resolve c p' \<in> (\<lambda>(s, p, z). resolve c p) ` set js" by force
      then show False using notin e by simp
    qed
    have ns: "\<forall>(s', p', z') \<in> set js. resolve c s \<noteq> resolve c p'"
      using Cons.prems(2) k by fastforce
    have gp: "?g (resolve c p) = ?f1 (resolve c p)" using nd by (rule fold_job_fs_frame)
    have gs: "?g (resolve c s) = ?f1 (resolve c s)" using ns by (rule fold_job_fs_frame)
    have "job_fs pf c (s, p, z) ?g (resolve c p) = job_fs pf c (s, p, z) ?f1 (resolve c p)"
      using gs gp by (rule job_fs_local)
    also have "\<dots> = ?f1 (resolve c p)" using job_fs_idem [OF sp, of pf z f] k by simp
    also have "\<dots> = ?g (resolve c p)" using gp by simp
    finally have "job_fs pf c (s, p, z) ?g = ?g" by (simp add: job_fs_fixed_iff)
    then show ?thesis using jk k by simp
  qed
qed

lemma fold_job_fs_idem:
  assumes "distinct (map (\<lambda>(s, p, z). resolve c p) js)"
    and "\<forall>(s, p, z) \<in> set js. \<forall>(s', p', z') \<in> set js. resolve c p' \<noteq> resolve c s"
  shows "fold (job_fs pf c) js (fold (job_fs pf c) js f) = fold (job_fs pf c) js f"
  using fold_job_fs_settles [OF assms] by (intro fold_job_fs_fixed) blast

lemma files_main:
  "files (snd (main pf d w)) = fold (job_fs pf d) icons (files w)"
  by (simp add: main_files files_convert_loop)

lemma icons_src_not_dst_all:
  "\<forall>(s, p, z) \<in> set icons. \<forall>(s', p', z') \<in> set icons. resolve d p' \<noteq> resolve d s"
  using icons_src_not_dst by blast

lemma world0_files:
  "files (snd (main platform0 ''/ext/icons'' world0)) ''/ext/icons/icon16.png''
   = Some (File True True ''PNG16x16'')"
  by (simp add: run_defs world0_def split_beta str_int_def str_nat.simps digit_char_def)

text \<open>
  C9. A second run of the batch leaves the file system that the first run has left: a
  run of main, started in any world whose files are those left by a run of main (with
  the same script directory, decoder, encoder and rasteriser, which are functions and so
  deterministic), changes no file. The sources are not changed by a run, so they are the
  same in both runs.
\<close>

theorem second_run_changes_no_file:
  "(files w' = files (snd (main pf script_dir w)) \<longrightarrow>
      files (snd (main pf script_dir w')) = files w')
   \<and> (\<forall>(s, p, z) \<in> set icons.
        files (snd (main pf script_dir w)) (script_dir @ ''/'' @ s)
        = files w (script_dir @ ''/'' @ s))"
proof (intro conjI impI)
  assume a: "files w' = files (snd (main pf script_dir w))"
  have "fold (job_fs pf script_dir) icons (fold (job_fs pf script_dir) icons (files w))
        = fold (job_fs pf script_dir) icons (files w)"
    using icons_distinct_dst icons_src_not_dst_all by (rule fold_job_fs_idem)
  then show "files (snd (main pf script_dir w')) = files w'"
    using a by (simp add: files_main)
next
  show "\<forall>(s, p, z) \<in> set icons.
        files (snd (main pf script_dir w)) (script_dir @ ''/'' @ s)
        = files w (script_dir @ ''/'' @ s)"
  proof (clarify)
    fix s p z
    assume j: "(s, p, z) \<in> set icons"
    have "\<forall>(s', p', z') \<in> set icons. resolve script_dir s \<noteq> resolve script_dir p'"
      using j icons_src_not_dst [of s p z _ _ _ script_dir] by fastforce
    then have "fold (job_fs pf script_dir) icons (files w) (resolve script_dir s)
               = files w (resolve script_dir s)"
      by (rule fold_job_fs_frame)
    then show "files (snd (main pf script_dir w)) (script_dir @ ''/'' @ s)
               = files w (script_dir @ ''/'' @ s)"
      using icons_resolve [OF j, of script_dir] by (simp add: files_main)
  qed
qed

theorem second_run_changes_no_file_witness:
  "files (snd (main platform0 ''/ext/icons'' world0))
   = files (snd (main platform0 ''/ext/icons'' world0))
   \<and> (''icon-16.svg'', ''icon16.png'', 16) \<in> set icons
   \<and> files (snd (main platform0 ''/ext/icons'' (snd (main platform0 ''/ext/icons'' world0))))
        ''/ext/icons/icon16.png'' = Some (File True True ''PNG16x16'')
   \<and> files (snd (main platform0 ''/ext/icons'' world0)) ''/ext/icons/icon-16.svg''
     = Some (File True True ''<svg/>'')"
proof -
  let ?w1 = "snd (main platform0 ''/ext/icons'' world0)"
  note t = second_run_changes_no_file [of ?w1 platform0 "''/ext/icons''" world0]
  have i: "(''icon-16.svg'', ''icon16.png'', 16) \<in> set icons" by (simp add: icons_def)
  have "files (snd (main platform0 ''/ext/icons'' ?w1)) = files ?w1"
    using t by simp
  then have a: "files (snd (main platform0 ''/ext/icons'' ?w1)) ''/ext/icons/icon16.png''
                = Some (File True True ''PNG16x16'')"
    using world0_files by simp
  have "files ?w1 (''/ext/icons'' @ ''/'' @ ''icon-16.svg'')
        = files world0 (''/ext/icons'' @ ''/'' @ ''icon-16.svg'')"
    using t i by blast
  then have b: "files ?w1 ''/ext/icons/icon-16.svg'' = Some (File True True ''<svg/>'')"
    by (simp add: world0_def)
  show ?thesis using a b i by simp
qed

lemma fold_job_fs_at_dst:
  assumes "distinct (map (\<lambda>(s, p, z). resolve c p) js)"
    and "\<forall>(s, p, z) \<in> set js. \<forall>(s', p', z') \<in> set js. resolve c p' \<noteq> resolve c s"
    and "(s, p, z) \<in> set js"
  shows "fold (job_fs pf c) js f (resolve c p) = job_fs pf c (s, p, z) f (resolve c p)"
  using assms
proof (induction js arbitrary: f)
  case Nil
  then show ?case by simp
next
  case (Cons k js)
  obtain s0 p0 z0 where k: "k = (s0, p0, z0)" by (cases k)
  let ?f1 = "job_fs pf c k f"
  have notin: "resolve c p0 \<notin> (\<lambda>(s, p, z). resolve c p) ` set js"
    using Cons.prems(1) k by simp
  show ?case
  proof (cases "(s, p, z) \<in> set js")
    case True
    then have inj: "resolve c p \<in> (\<lambda>(s, p, z). resolve c p) ` set js" by force
    have d: "resolve c p \<noteq> resolve c p0"
    proof
      assume "resolve c p = resolve c p0"
      then show False using inj notin by simp
    qed
    have e: "resolve c s \<noteq> resolve c p0" using Cons.prems(2) True k by fastforce
    have "fold (job_fs pf c) js ?f1 (resolve c p) = job_fs pf c (s, p, z) ?f1 (resolve c p)"
      using Cons.prems True by (intro Cons.IH) auto
    also have "\<dots> = job_fs pf c (s, p, z) f (resolve c p)"
      using d e k by (intro job_fs_local) (simp_all add: job_fs_frame)
    finally show ?thesis by simp
  next
    case False
    then have jk: "k = (s, p, z)" using Cons.prems(3) by simp
    have "\<forall>(s', p', z') \<in> set js. resolve c p \<noteq> resolve c p'"
    proof (clarify)
      fix s' p' z'
      assume "(s', p', z') \<in> set js" and e: "resolve c p = resolve c p'"
      then have "resolve c p' \<in> (\<lambda>(s, p, z). resolve c p) ` set js" by force
      then show False using notin e jk k by simp
    qed
    then have "fold (job_fs pf c) js ?f1 (resolve c p) = ?f1 (resolve c p)"
      by (rule fold_job_fs_frame)
    then show ?thesis using jk by simp
  qed
qed

lemma files_main_at_dst:
  assumes "(s, p, z) \<in> set icons"
  shows "files (snd (main pf d w)) (d @ ''/'' @ p) = job_fs pf d (s, p, z) (files w) (d @ ''/'' @ p)"
proof -
  have "fold (job_fs pf d) icons (files w) (resolve d p)
        = job_fs pf d (s, p, z) (files w) (resolve d p)"
    using icons_distinct_dst icons_src_not_dst_all assms by (rule fold_job_fs_at_dst)
  then show ?thesis
    using icons_resolve [OF assms, of d] by (simp add: files_main)
qed

lemma files_main_frame:
  assumes "\<forall>(s, p, z) \<in> set icons. q \<noteq> d @ ''/'' @ p"
  shows "files (snd (main pf d w)) q = files w q"
proof -
  have "\<forall>(s, p, z) \<in> set icons. q \<noteq> resolve d p"
    using assms icons_resolve by fastforce
  then have "fold (job_fs pf d) icons (files w) q = files w q" by (rule fold_job_fs_frame)
  then show ?thesis by (simp add: files_main)
qed

lemma main_cwd_irrelevant: "main pf d (w\<lparr>cwd := c\<rparr>) = main pf d w"
  by (simp add: main_def main_prelude_def os_chdir_def print_def)

text \<open>
  C7. main changes the current working directory of the process to the directory of the
  script before the first job, and it stays there. The run does not depend on the
  directory from which the program was started. The only files that a run changes are
  the four destinations in the directory of the script, and what it leaves there depends
  only on the sources and destinations in that directory.
\<close>

theorem paths_are_relative_to_the_script:
  "main pf script_dir (w\<lparr>cwd := c\<rparr>) = main pf script_dir w
   \<and> cwd (main_prelude script_dir w) = script_dir
   \<and> cwd (snd (main pf script_dir w)) = script_dir
   \<and> (files (snd (main pf script_dir w)) q \<noteq> files w q \<longrightarrow>
        (\<exists>(s, p, z) \<in> set icons. q = script_dir @ ''/'' @ p))
   \<and> ((\<forall>(s, p, z) \<in> set icons.
          files w (script_dir @ ''/'' @ s) = files w' (script_dir @ ''/'' @ s)
          \<and> files w (script_dir @ ''/'' @ p) = files w' (script_dir @ ''/'' @ p)) \<longrightarrow>
        (\<forall>(s, p, z) \<in> set icons.
          files (snd (main pf script_dir w)) (script_dir @ ''/'' @ p)
          = files (snd (main pf script_dir w')) (script_dir @ ''/'' @ p)))"
proof (intro conjI impI)
  show "main pf script_dir (w\<lparr>cwd := c\<rparr>) = main pf script_dir w"
    by (rule main_cwd_irrelevant)
  show "cwd (main_prelude script_dir w) = script_dir" by simp
  show "cwd (snd (main pf script_dir w)) = script_dir" by simp
next
  assume a: "files (snd (main pf script_dir w)) q \<noteq> files w q"
  show "\<exists>(s, p, z) \<in> set icons. q = script_dir @ ''/'' @ p"
  proof (rule ccontr)
    assume "\<not> (\<exists>(s, p, z) \<in> set icons. q = script_dir @ ''/'' @ p)"
    then have "\<forall>(s, p, z) \<in> set icons. q \<noteq> script_dir @ ''/'' @ p" by auto
    then have "files (snd (main pf script_dir w)) q = files w q" by (rule files_main_frame)
    then show False using a by simp
  qed
next
  assume a: "\<forall>(s, p, z) \<in> set icons.
          files w (script_dir @ ''/'' @ s) = files w' (script_dir @ ''/'' @ s)
          \<and> files w (script_dir @ ''/'' @ p) = files w' (script_dir @ ''/'' @ p)"
  show "\<forall>(s, p, z) \<in> set icons.
          files (snd (main pf script_dir w)) (script_dir @ ''/'' @ p)
          = files (snd (main pf script_dir w')) (script_dir @ ''/'' @ p)"
  proof (clarify)
    fix s p z
    assume j: "(s, p, z) \<in> set icons"
    have r: "resolve script_dir s = script_dir @ ''/'' @ s"
            "resolve script_dir p = script_dir @ ''/'' @ p"
      using icons_resolve [OF j, of script_dir] by simp_all
    have "files w (resolve script_dir s) = files w' (resolve script_dir s)"
         "files w (resolve script_dir p) = files w' (resolve script_dir p)"
      using a j r by auto
    then have "job_fs pf script_dir (s, p, z) (files w) (resolve script_dir p)
               = job_fs pf script_dir (s, p, z) (files w') (resolve script_dir p)"
      by (rule job_fs_local)
    then show "files (snd (main pf script_dir w)) (script_dir @ ''/'' @ p)
               = files (snd (main pf script_dir w')) (script_dir @ ''/'' @ p)"
      using r files_main_at_dst [OF j, of pf script_dir w]
        files_main_at_dst [OF j, of pf script_dir w'] by simp
  qed
qed

theorem paths_are_relative_to_the_script_witness:
  "files (snd (main platform0 ''/ext/icons'' world0)) ''/ext/icons/icon16.png''
     \<noteq> files world0 ''/ext/icons/icon16.png''
   \<and> (''icon-16.svg'', ''icon16.png'', 16) \<in> set icons
   \<and> files (snd (main platform0 ''/ext/icons''
         (world0\<lparr>cwd := ''/tmp'',
            files := (files world0)(''/tmp/icon16.png'' \<mapsto> File True True ''other'')\<rparr>)))
         ''/ext/icons/icon16.png'' = Some (File True True ''PNG16x16'')
   \<and> cwd (snd (main platform0 ''/ext/icons'' world0)) = ''/ext/icons''"
proof -
  let ?d = "''/ext/icons''"
  let ?w' = "world0\<lparr>cwd := ''/tmp'',
               files := (files world0)(''/tmp/icon16.png'' \<mapsto> File True True ''other'')\<rparr>"
  note t = paths_are_relative_to_the_script
    [where pf = platform0 and script_dir = ?d and w = world0 and c = "''/tmp''"
       and q = "''/ext/icons/icon16.png''" and w' = ?w']
  have h1: "files (snd (main platform0 ?d world0)) ''/ext/icons/icon16.png''
            \<noteq> files world0 ''/ext/icons/icon16.png''"
    using world0_files by (simp add: world0_def)
  have h2: "\<forall>(s, p, z) \<in> set icons.
         files world0 (?d @ ''/'' @ s) = files ?w' (?d @ ''/'' @ s)
         \<and> files world0 (?d @ ''/'' @ p) = files ?w' (?d @ ''/'' @ p)"
    by (simp add: icons_def)
  have i: "(''icon-16.svg'', ''icon16.png'', 16) \<in> set icons" by (simp add: icons_def)
  have c1: "\<exists>(s, p, z) \<in> set icons. ''/ext/icons/icon16.png'' = ?d @ ''/'' @ p"
    using t h1 by blast
  have "\<forall>(s, p, z) \<in> set icons.
          files (snd (main platform0 ?d world0)) (?d @ ''/'' @ p)
          = files (snd (main platform0 ?d ?w')) (?d @ ''/'' @ p)"
    using t h2 by blast
  then have "files (snd (main platform0 ?d world0)) (?d @ ''/'' @ ''icon16.png'')
          = files (snd (main platform0 ?d ?w')) (?d @ ''/'' @ ''icon16.png'')"
    using i by blast
  then have c2: "files (snd (main platform0 ?d ?w')) ''/ext/icons/icon16.png''
                 = Some (File True True ''PNG16x16'')"
    using world0_files by simp
  have c3: "cwd (snd (main platform0 ?d world0)) = ?d" using t by blast
  show ?thesis using h1 i c2 c3 by blast
qed

lemma convert_body_processed:
  "\<exists>ls. stdout (fst (convert_body pf (s, p, z) (w, n))) = stdout w @ ls
     \<and> (not_found_msg s \<in> set ls \<or> generating_msg p \<in> set ls)"
proof (cases "os_path_exists w s")
  case False
  then show ?thesis by simp
next
  case True
  obtain ls where "stdout (snd (generate_icon pf s p z (print (generating_msg p) w)))
                   = stdout (print (generating_msg p) w) @ ls"
    using generate_icon_stdout by blast
  then have "stdout (fst (convert_body pf (s, p, z) (w, n)))
             = stdout w @ (generating_msg p # ls)"
    using True by (simp add: split_beta split: bool.splits)
  then show ?thesis by auto
qed

lemma convert_loop_processed:
  "\<exists>out. stdout (fst (convert_loop pf js (w, n))) = stdout w @ out
     \<and> (\<forall>(s, p, z) \<in> set js. not_found_msg s \<in> set out \<or> generating_msg p \<in> set out)"
proof (induction js arbitrary: w n)
  case Nil
  show ?case by simp
next
  case (Cons j js)
  obtain s p z where j: "j = (s, p, z)" by (cases j)
  obtain w1 n1 where b: "convert_body pf j (w, n) = (w1, n1)" by (cases "convert_body pf j (w, n)")
  obtain l1 where l1: "stdout w1 = stdout w @ l1"
    and l1': "not_found_msg s \<in> set l1 \<or> generating_msg p \<in> set l1"
    using convert_body_processed [of pf s p z w n] b j by auto
  obtain l2 where l2: "stdout (fst (convert_loop pf js (w1, n1))) = stdout w1 @ l2"
    and l2': "\<forall>(s, p, z) \<in> set js. not_found_msg s \<in> set l2 \<or> generating_msg p \<in> set l2"
    using Cons.IH [of w1 n1] by blast
  have "stdout (fst (convert_loop pf (j # js) (w, n))) = stdout w @ (l1 @ l2)"
    using b l1 l2 by simp
  moreover have "\<forall>(s, p, z) \<in> set (j # js).
                   not_found_msg s \<in> set (l1 @ l2) \<or> generating_msg p \<in> set (l1 @ l2)"
    using l1' l2' j by auto
  ultimately show ?case by blast
qed

lemma main_no_raise: "fst (main pf d w) = Inr ()"
  by (simp add: main_def split_beta listing_loop_no_raise)



subsection \<open>The script on a console that rejects no line\<close>

lemma and_then_Inr [simp]: "and_then (Inr x, w) f = f x w"
  by (simp add: and_then_def)

lemma and_then_Inl [simp]: "and_then (Inl e, w) f = (Inl e, w)"
  by (simp add: and_then_def)

lemma print_io_accepted:
  "write_error con s = None \<Longrightarrow> print_io con s w = (Inr (), print s w)"
  by (simp add: print_io_def)

lemma print_io_rejected:
  "write_error con s = Some e \<Longrightarrow> print_io con s w = (Inl e, w)"
  by (simp add: print_io_def)

lemma generate_icon_try_io_eq:
  assumes "\<forall>s. write_error con s = None"
  shows "generate_icon_try_io con pf s p z w = generate_icon_try pf s p z w"
proof -
  have "\<And>b. and_then (svg2png pf b p z z w) (\<lambda>u w1. print_io con (created_msg p z) w1)
        = (case svg2png pf b p z z w of
             (Inl e, w1) \<Rightarrow> (Inl e, w1)
           | (Inr u, w1) \<Rightarrow> (Inr (), print (created_msg p z) w1))"
    using assms by (simp add: and_then_def print_io_accepted split: prod.splits sum.splits)
  then show ?thesis
    by (simp add: generate_icon_try_io_def generate_icon_try_def split: sum.splits)
qed

lemma generate_icon_io_eq:
  assumes "\<forall>s. write_error con s = None"
  shows "generate_icon_io con pf s p z w
         = (Inr (fst (generate_icon pf s p z w)), snd (generate_icon pf s p z w))"
  using assms
  by (simp add: generate_icon_io_def generate_icon_def generate_icon_try_io_eq print_io_accepted
      split: prod.splits sum.splits)

lemma convert_body_io_eq:
  assumes "\<forall>s. write_error con s = None"
  shows "convert_body_io con pf j (w, n)
         = (Inr (snd (convert_body pf j (w, n))), fst (convert_body pf j (w, n)))"
proof (cases j)
  case (fields s p z)
  show ?thesis
    using assms fields
    by (simp add: print_io_accepted generate_icon_io_eq split_beta split: bool.splits)
qed

lemma convert_loop_io_eq:
  assumes "\<forall>s. write_error con s = None"
  shows "convert_loop_io con pf js (w, n)
         = (Inr (snd (convert_loop pf js (w, n))), fst (convert_loop pf js (w, n)))"
proof (induction js arbitrary: w n)
  case Nil
  show ?case by simp
next
  case (Cons j js)
  obtain w1 n1 where b: "convert_body pf j (w, n) = (w1, n1)" by (cases "convert_body pf j (w, n)")
  show ?case
    using Cons.IH [of w1 n1] b by (simp add: convert_body_io_eq [OF assms])
qed

lemma listing_loop_io_eq:
  assumes "\<forall>s. write_error con s = None"
  shows "listing_loop_io con js w = listing_loop js w"
  using assms
  by (induction js w rule: listing_loop.induct)
     (simp_all add: print_io_accepted split: sum.splits)

lemma main_io_eq:
  assumes "\<forall>s. write_error con s = None"
  shows "main_io con pf d w = main pf d w"
  using assms
  by (simp add: main_io_def main_def main_prelude_def print_io_accepted convert_loop_io_eq
      listing_loop_io_eq split_beta)

text \<open>
  C8, as the script behaves. On a standard output that rejects no line, whatever the
  number of jobs that are skipped or fail, the loop ends without an exception, main
  processes each of the four jobs (it prints its warning or its "Generating" line),
  prints the summary and returns without an exception. So does the whole script when the
  import block has imported cairosvg, and the exit status is then 0 when the flush of
  standard output at exit succeeds.
\<close>

theorem main_reaches_the_summary_on_accepting_console:
  "(\<forall>s. write_error con s = None) \<longrightarrow>
     (\<exists>n. fst (convert_loop_io con pf icons (w, k)) = Inr n)
     \<and> main_io con pf script_dir w = main pf script_dir w
     \<and> fst (main_io con pf script_dir w) = Inr ()
     \<and> (\<exists>out listing.
           stdout (snd (main_io con pf script_dir w))
           = stdout (main_prelude script_dir w) @ out
             @ ['''', summary_line (snd (convert_loop pf icons (main_prelude script_dir w, 0))) 4,
                '''', ''Generated files:''] @ listing
           \<and> (\<forall>(s, p, z) \<in> set icons.
                 not_found_msg s \<in> set out \<or> generating_msg p \<in> set out))
     \<and> (flushes con \<longrightarrow> exit_status con (main_io con pf script_dir w) = 0)
     \<and> (fst (import_cairosvg con pf w) = Inr () \<longrightarrow>
          program con pf script_dir w = main pf script_dir (snd (import_cairosvg con pf w))
          \<and> (flushes con \<longrightarrow> exit_status con (program con pf script_dir w) = 0))"
proof (intro impI conjI)
  assume a: "\<forall>s. write_error con s = None"
  show "\<exists>n. fst (convert_loop_io con pf icons (w, k)) = Inr n"
    by (simp add: convert_loop_io_eq [OF a])
  show m: "main_io con pf script_dir w = main pf script_dir w"
    using a by (rule main_io_eq)
  show r: "fst (main_io con pf script_dir w) = Inr ()"
    by (simp add: m main_no_raise)
  show "\<exists>out listing.
           stdout (snd (main_io con pf script_dir w))
           = stdout (main_prelude script_dir w) @ out
             @ ['''', summary_line (snd (convert_loop pf icons (main_prelude script_dir w, 0))) 4,
                '''', ''Generated files:''] @ listing
           \<and> (\<forall>(s, p, z) \<in> set icons.
                 not_found_msg s \<in> set out \<or> generating_msg p \<in> set out)"
  proof -
    let ?w = "main_prelude script_dir w"
    obtain out where o: "stdout (fst (convert_loop pf icons (?w, 0))) = stdout ?w @ out"
      and o': "\<forall>(s, p, z) \<in> set icons. not_found_msg s \<in> set out \<or> generating_msg p \<in> set out"
      using convert_loop_processed [of pf icons ?w 0] by blast
    obtain listing where "stdout (snd (main pf script_dir w))
       = stdout (fst (convert_loop pf icons (?w, 0)))
         @ ['''', summary_line (snd (convert_loop pf icons (?w, 0))) 4,
            '''', ''Generated files:''] @ listing"
      using main_stdout by blast
    then have "stdout (snd (main_io con pf script_dir w))
       = stdout ?w @ out
         @ ['''', summary_line (snd (convert_loop pf icons (?w, 0))) 4,
            '''', ''Generated files:''] @ listing"
      using o m by simp
    then show ?thesis using o' by blast
  qed
  {
    assume "flushes con"
    then show "exit_status con (main_io con pf script_dir w) = 0"
      using r by (simp add: exit_status_def)
  }
  {
    assume i: "fst (import_cairosvg con pf w) = Inr ()"
    then obtain w1 where w1: "import_cairosvg con pf w = (Inr (), w1)"
      by (cases "import_cairosvg con pf w") simp
    then have "program con pf script_dir w
               = main_io con pf script_dir (snd (import_cairosvg con pf w))"
      by (simp add: program_def)
    then show p: "program con pf script_dir w
                  = main pf script_dir (snd (import_cairosvg con pf w))"
      by (simp add: main_io_eq [OF a])
    {
      assume "flushes con"
      then show "exit_status con (program con pf script_dir w) = 0"
        by (simp add: exit_status_def p main_no_raise)
    }
  }
qed

theorem main_reaches_the_summary_on_accepting_console_witness:
  "write_error console0 ''any line'' = None \<and> flushes console0
   \<and> fst (import_cairosvg console0 platform0 world0) = Inr ()
   \<and> fst (main_io console0 platform0 ''/ext/icons'' world0) = Inr ()
   \<and> main_io console0 platform0 ''/ext/icons'' world0 = main platform0 ''/ext/icons'' world0
   \<and> exit_status console0 (program console0 platform0 ''/ext/icons'' world0) = 0
   \<and> summary_line 1 4 \<in> set (stdout (snd (main_io console0 platform0 ''/ext/icons'' world0)))"
proof -
  have a: "\<forall>s. write_error console0 s = None" by (simp add: console0_def)
  have f: "flushes console0" by (simp add: console0_def)
  have i: "fst (import_cairosvg console0 platform0 world0) = Inr ()"
    by (simp add: import_cairosvg_def world0_def)
  note t = main_reaches_the_summary_on_accepting_console
    [where con = console0 and pf = platform0 and script_dir = "''/ext/icons''" and w = world0
       and k = 0]
  have m: "main_io console0 platform0 ''/ext/icons'' world0 = main platform0 ''/ext/icons'' world0"
    using t a by blast
  have r: "fst (main_io console0 platform0 ''/ext/icons'' world0) = Inr ()"
    using t a by blast
  have e: "exit_status console0 (program console0 platform0 ''/ext/icons'' world0) = 0"
    using t a f i by blast
  obtain out listing where
    "stdout (snd (main_io console0 platform0 ''/ext/icons'' world0))
     = stdout (main_prelude ''/ext/icons'' world0) @ out
       @ ['''', summary_line
                  (snd (convert_loop platform0 icons (main_prelude ''/ext/icons'' world0, 0))) 4,
          '''', ''Generated files:''] @ listing"
    using t a by blast
  then have s: "summary_line 1 4
                \<in> set (stdout (snd (main_io console0 platform0 ''/ext/icons'' world0)))"
    by (simp add: world0_count del: main_prelude_simps)
  show ?thesis using a f i m r e s by simp
qed

text \<open>
  C8, as the claim states it, fails. On \<open>console1\<close>, which cannot encode the sign in the
  first line that main prints, main ends with the exception of that \<^verbatim>\<open>print\<close>: no
  job is processed, nothing is printed, and the exit status is 1. In \<open>world2\<close> on
  \<open>platform1\<close> the second import fails and the script ends before main, with exit
  status 1, having printed one line. When the flush at exit fails the exit status is 120.
\<close>

theorem every_run_reports_the_summary_counterexample:
  "fst (main_io console1 platform0 ''/ext/icons'' world1) = Inl ''ordinal not in range(128)''
   \<and> stdout (snd (main_io console1 platform0 ''/ext/icons'' world1)) = []
   \<and> svg2png_log (snd (main_io console1 platform0 ''/ext/icons'' world1)) = []
   \<and> exit_status console1 (main_io console1 platform0 ''/ext/icons'' world1) = 1
   \<and> fst (program console0 platform1 ''/ext/icons'' world2)
       = Inl (''No module named '' @ repr_str ''cairosvg'')
   \<and> stdout (snd (program console0 platform1 ''/ext/icons'' world2)) = [installing_msg]
   \<and> exit_status console0 (program console0 platform1 ''/ext/icons'' world2) = 1
   \<and> exit_status (console0\<lparr>flushes := False\<rparr>)
        (main_io (console0\<lparr>flushes := False\<rparr>) platform0 ''/ext/icons'' world1) = 120"
proof -
  have w: "write_error console1 (palette @ '' LendingPad PDF Auditor - Icon Generator'')
           = Some ''ordinal not in range(128)''"
    by (simp add: console1_def palette_def)
  have m: "main_io console1 platform0 ''/ext/icons'' world1
           = (Inl ''ordinal not in range(128)'', world1)"
    by (simp add: main_io_def print_io_rejected [OF w])
  have p: "program console0 platform1 ''/ext/icons'' world2
           = (Inl (''No module named '' @ repr_str ''cairosvg''),
              os_system platform1 ''pip3 install cairosvg'' (print installing_msg world2))"
    by (simp add: program_def import_cairosvg_def world2_def print_io_def console0_def
        os_system_def platform1_def Let_def)
  have s: "stdout (os_system platform1 ''pip3 install cairosvg'' (print installing_msg world2))
           = [installing_msg]"
    by (simp add: os_system_def split_beta world2_def world1_def)
  have c1: "flushes console1" by (simp add: console1_def)
  have c0: "flushes console0" by (simp add: console0_def)
  have w1: "stdout world1 = []" "svg2png_log world1 = []" by (simp_all add: world1_def)
  have a: "\<forall>s. write_error (console0\<lparr>flushes := False\<rparr>) s = None"
    by (simp add: console0_def)
  have x: "exit_status (console0\<lparr>flushes := False\<rparr>)
             (main_io (console0\<lparr>flushes := False\<rparr>) platform0 ''/ext/icons'' world1) = 120"
    by (simp add: exit_status_def)
  have e1: "exit_status console1 (main_io console1 platform0 ''/ext/icons'' world1) = 1"
    using c1 by (simp add: exit_status_def m)
  have e0: "exit_status console0 (program console0 platform1 ''/ext/icons'' world2) = 1"
    using c0 by (simp add: exit_status_def p)
  show ?thesis
    using w1 x e1 e0 s by (simp add: m p)
qed

subsection \<open>The import block\<close>

lemma import_cairosvg_import_error:
  assumes "cairosvg_import w = Import_error e" and "write_error con installing_msg = None"
  shows "import_cairosvg con pf w
         = ((case cairosvg_import (os_system pf ''pip3 install cairosvg'' (print installing_msg w)) of
               Imported \<Rightarrow> Inr ()
             | Import_error e2 \<Rightarrow> Inl e2
             | Other_error e2 \<Rightarrow> Inl e2),
            os_system pf ''pip3 install cairosvg'' (print installing_msg w))"
  using assms
  by (simp add: import_cairosvg_def print_io_accepted Let_def split: import_outcome.splits)

lemma os_system_simps:
  "stdout (os_system pf cmd w) = stdout w"
  "cwd (os_system pf cmd w) = cwd w"
  "svg2png_log (os_system pf cmd w) = svg2png_log w"
  "os_system_log (os_system pf cmd w) = os_system_log w @ [cmd]"
  "(files (os_system pf cmd w), cairosvg_import (os_system pf cmd w))
   = shell pf cmd (files w, cairosvg_import w)"
  by (simp_all add: os_system_def split_beta)

text \<open>
  C6, as the script behaves. When the first \<^verbatim>\<open>import cairosvg\<close> raises ImportError, the
  script prints a line that names cairosvg, runs the shell command
  \<^verbatim>\<open>pip3 install cairosvg\<close> (an installation into the running environment, which
  changes files and the outcome of the import as the command does) and imports again;
  when the second import raises, the script ends with that exception before any job is
  processed, otherwise it runs main. When the first import raises another exception, or
  the line cannot be printed, the script ends at once with that exception and runs no
  command. When cairosvg is imported at startup, no command is run.
\<close>

theorem missing_cairosvg_is_installed:
  "(cairosvg_import w = Imported \<longrightarrow>
      import_cairosvg con pf w = (Inr (), w)
      \<and> program con pf script_dir w = main_io con pf script_dir w)
   \<and> (cairosvg_import w = Other_error e \<longrightarrow> program con pf script_dir w = (Inl e, w))
   \<and> (cairosvg_import w = Import_error e \<longrightarrow>
        (write_error con installing_msg = Some e1 \<longrightarrow>
           program con pf script_dir w = (Inl e1, w))
        \<and> (write_error con installing_msg = None \<longrightarrow>
             (let w2 = snd (import_cairosvg con pf w)
              in stdout w2 = stdout w @ [cross_mark @ '' cairosvg not found. Installing...'']
                 \<and> os_system_log w2 = os_system_log w @ [''pip3 install cairosvg'']
                 \<and> (files w2, cairosvg_import w2)
                     = shell pf ''pip3 install cairosvg'' (files w, cairosvg_import w)
                 \<and> svg2png_log w2 = svg2png_log w
                 \<and> (cairosvg_import w2 = Imported \<longrightarrow>
                      program con pf script_dir w = main_io con pf script_dir w2)
                 \<and> (cairosvg_import w2 = Import_error e2 \<or> cairosvg_import w2 = Other_error e2
                      \<longrightarrow> program con pf script_dir w = (Inl e2, w2)))))"
proof (intro conjI impI)
  assume a: "cairosvg_import w = Imported"
  show i: "import_cairosvg con pf w = (Inr (), w)" using a by (simp add: import_cairosvg_def)
  show "program con pf script_dir w = main_io con pf script_dir w"
    by (simp add: program_def i)
next
  assume "cairosvg_import w = Other_error e"
  then show "program con pf script_dir w = (Inl e, w)"
    by (simp add: program_def import_cairosvg_def)
next
  assume "cairosvg_import w = Import_error e" and "write_error con installing_msg = Some e1"
  then show "program con pf script_dir w = (Inl e1, w)"
    by (simp add: program_def import_cairosvg_def print_io_rejected)
next
  assume a: "cairosvg_import w = Import_error e" and b: "write_error con installing_msg = None"
  let ?w2 = "os_system pf ''pip3 install cairosvg'' (print installing_msg w)"
  note i = import_cairosvg_import_error [OF a b, of pf]
  have s: "snd (import_cairosvg con pf w) = ?w2" by (simp add: i)
  have p1: "cairosvg_import ?w2 = Imported \<longrightarrow>
            program con pf script_dir w = main_io con pf script_dir ?w2"
    by (simp add: program_def i)
  have p2: "cairosvg_import ?w2 = Import_error e2 \<or> cairosvg_import ?w2 = Other_error e2
            \<longrightarrow> program con pf script_dir w = (Inl e2, ?w2)"
    by (auto simp: program_def i)
  have f: "(files ?w2, cairosvg_import ?w2)
           = shell pf ''pip3 install cairosvg'' (files w, cairosvg_import w)"
    using os_system_simps(5) [of pf "''pip3 install cairosvg''" "print installing_msg w"]
    by simp
  show "let w2 = snd (import_cairosvg con pf w)
        in stdout w2 = stdout w @ [cross_mark @ '' cairosvg not found. Installing...'']
           \<and> os_system_log w2 = os_system_log w @ [''pip3 install cairosvg'']
           \<and> (files w2, cairosvg_import w2)
               = shell pf ''pip3 install cairosvg'' (files w, cairosvg_import w)
           \<and> svg2png_log w2 = svg2png_log w
           \<and> (cairosvg_import w2 = Imported \<longrightarrow>
                program con pf script_dir w = main_io con pf script_dir w2)
           \<and> (cairosvg_import w2 = Import_error e2 \<or> cairosvg_import w2 = Other_error e2
                \<longrightarrow> program con pf script_dir w = (Inl e2, w2))"
    unfolding Let_def s
    using p1 p2 f by (simp add: os_system_simps(1-4) installing_msg_def)
qed

lemma world2_import:
  "cairosvg_import world2 = Import_error (''No module named '' @ repr_str ''cairosvg'')"
  "stdout world2 = []" "os_system_log world2 = []"
  "files world2 ''/usr/lib/python3/site-packages/cairosvg/__init__.py'' = None"
  by (simp_all add: world2_def world1_def)

lemma console0_accepts: "write_error console0 s = None"
  by (simp add: console0_def)

lemma world2_after_pip:
  "cairosvg_import (os_system platform0 ''pip3 install cairosvg'' (print installing_msg world2))
   = Imported"
  "cairosvg_import (os_system platform1 ''pip3 install cairosvg'' (print installing_msg world2))
   = Import_error (''No module named '' @ repr_str ''cairosvg'')"
  "cairosvg_import (os_system platform2 ''pip3 install cairosvg'' (print installing_msg world2))
   = Other_error ''no library called cairo was found''"
  "files (os_system platform0 ''pip3 install cairosvg'' (print installing_msg world2))
     ''/usr/lib/python3/site-packages/cairosvg/__init__.py'' = Some (File True True '''')"
  by (simp_all add: os_system_def platform0_def platform1_def platform2_def world2_import)

theorem missing_cairosvg_is_installed_witness:
  "cairosvg_import world1 = Imported
   \<and> program console0 platform0 ''/ext/icons'' world1
     = main_io console0 platform0 ''/ext/icons'' world1
   \<and> cairosvg_import world3 = Other_error ''no library called cairo was found''
   \<and> program console0 platform0 ''/ext/icons'' world3
     = (Inl ''no library called cairo was found'', world3)
   \<and> cairosvg_import world2 = Import_error (''No module named '' @ repr_str ''cairosvg'')
   \<and> write_error console1 installing_msg = Some ''ordinal not in range(128)''
   \<and> program console1 platform0 ''/ext/icons'' world2
     = (Inl ''ordinal not in range(128)'', world2)
   \<and> write_error console0 installing_msg = None
   \<and> os_system_log (snd (import_cairosvg console0 platform0 world2))
     = [''pip3 install cairosvg'']
   \<and> program console0 platform0 ''/ext/icons'' world2
     = main_io console0 platform0 ''/ext/icons'' (snd (import_cairosvg console0 platform0 world2))
   \<and> program console0 platform1 ''/ext/icons'' world2
     = (Inl (''No module named '' @ repr_str ''cairosvg''),
        snd (import_cairosvg console0 platform1 world2))
   \<and> program console0 platform2 ''/ext/icons'' world2
     = (Inl ''no library called cairo was found'',
        snd (import_cairosvg console0 platform2 world2))"
proof -
  let ?d = "''/ext/icons''"
  let ?e = "''No module named '' @ repr_str ''cairosvg''"
  let ?o = "''no library called cairo was found''"
  have h1: "cairosvg_import world1 = Imported" by (simp add: world1_def)
  have h3: "cairosvg_import world3 = Other_error ?o" by (simp add: world3_def)
  have h2: "cairosvg_import world2 = Import_error ?e" by (rule world2_import(1))
  have r: "write_error console1 installing_msg = Some ''ordinal not in range(128)''"
    by (simp add: console1_def installing_msg_def cross_mark_def)
  have a: "write_error console0 installing_msg = None" by (rule console0_accepts)
  have s0: "snd (import_cairosvg console0 platform0 world2)
            = os_system platform0 ''pip3 install cairosvg'' (print installing_msg world2)"
    by (simp add: import_cairosvg_import_error [OF h2 a])
  have s1: "snd (import_cairosvg console0 platform1 world2)
            = os_system platform1 ''pip3 install cairosvg'' (print installing_msg world2)"
    by (simp add: import_cairosvg_import_error [OF h2 a])
  have s2: "snd (import_cairosvg console0 platform2 world2)
            = os_system platform2 ''pip3 install cairosvg'' (print installing_msg world2)"
    by (simp add: import_cairosvg_import_error [OF h2 a])
  have c1: "program console0 platform0 ?d world1 = main_io console0 platform0 ?d world1"
    using missing_cairosvg_is_installed [where w = world1 and con = console0 and pf = platform0
        and script_dir = ?d] h1 by blast
  have c3: "program console0 platform0 ?d world3 = (Inl ?o, world3)"
    using missing_cairosvg_is_installed [where w = world3 and con = console0 and pf = platform0
        and script_dir = ?d and e = ?o] h3 by blast
  have c2: "program console1 platform0 ?d world2 = (Inl ''ordinal not in range(128)'', world2)"
    using missing_cairosvg_is_installed [where w = world2 and con = console1 and pf = platform0
        and script_dir = ?d and e = ?e and ?e1.0 = "''ordinal not in range(128)''"] h2 r
    by blast
  note t0 = missing_cairosvg_is_installed [where w = world2 and con = console0
      and pf = platform0 and script_dir = ?d and e = ?e, unfolded Let_def]
  have l0: "os_system_log (snd (import_cairosvg console0 platform0 world2))
            = os_system_log world2 @ [''pip3 install cairosvg'']"
    using t0 h2 a by blast
  have i0: "cairosvg_import (snd (import_cairosvg console0 platform0 world2)) = Imported"
    by (simp add: s0 world2_after_pip)
  have p0: "program console0 platform0 ?d world2
            = main_io console0 platform0 ?d (snd (import_cairosvg console0 platform0 world2))"
    using t0 h2 a i0 by blast
  note t1 = missing_cairosvg_is_installed [where w = world2 and con = console0
      and pf = platform1 and script_dir = ?d and e = ?e and ?e2.0 = ?e, unfolded Let_def]
  have i1: "cairosvg_import (snd (import_cairosvg console0 platform1 world2)) = Import_error ?e"
    by (simp add: s1 world2_after_pip)
  have p1: "program console0 platform1 ?d world2
            = (Inl ?e, snd (import_cairosvg console0 platform1 world2))"
    using t1 h2 a i1 by blast
  note t2 = missing_cairosvg_is_installed [where w = world2 and con = console0
      and pf = platform2 and script_dir = ?d and e = ?e and ?e2.0 = ?o, unfolded Let_def]
  have i2: "cairosvg_import (snd (import_cairosvg console0 platform2 world2)) = Other_error ?o"
    by (simp add: s2 world2_after_pip)
  have p2: "program console0 platform2 ?d world2
            = (Inl ?o, snd (import_cairosvg console0 platform2 world2))"
    using t2 h2 a i2 by blast
  show ?thesis
    using h1 c1 h3 c3 h2 r c2 a l0 p0 p1 p2 by (simp add: world2_import)
qed

text \<open>
  C6, as the claim states it, fails: in \<open>world2\<close> the import of cairosvg raises
  ImportError, and on \<open>platform0\<close> the script does not fail. It has run
  \<^verbatim>\<open>pip3 install cairosvg\<close>, which has written a file of the package, the import
  succeeds afterwards, and the script runs main and exits with status 0.
\<close>

theorem fail_fast_on_missing_cairosvg_counterexample:
  "cairosvg_import world2 = Import_error (''No module named '' @ repr_str ''cairosvg'')
   \<and> fst (program console0 platform0 ''/ext/icons'' world2) = Inr ()
   \<and> exit_status console0 (program console0 platform0 ''/ext/icons'' world2) = 0
   \<and> os_system_log (snd (import_cairosvg console0 platform0 world2))
     = [''pip3 install cairosvg'']
   \<and> files world2 ''/usr/lib/python3/site-packages/cairosvg/__init__.py'' = None
   \<and> files (snd (import_cairosvg console0 platform0 world2))
       ''/usr/lib/python3/site-packages/cairosvg/__init__.py'' = Some (File True True '''')
   \<and> cairosvg_import (snd (import_cairosvg console0 platform0 world2)) = Imported"
proof -
  let ?w2 = "os_system platform0 ''pip3 install cairosvg'' (print installing_msg world2)"
  have a: "\<forall>s. write_error console0 s = None" by (simp add: console0_def)
  have i: "import_cairosvg console0 platform0 world2 = (Inr (), ?w2)"
    by (simp add: import_cairosvg_import_error [OF world2_import(1) console0_accepts]
        world2_after_pip)
  have m: "fst (program console0 platform0 ''/ext/icons'' world2) = Inr ()"
    by (simp add: program_def i main_io_eq [OF a] main_no_raise)
  have e: "exit_status console0 (program console0 platform0 ''/ext/icons'' world2) = 0"
    using m by (simp add: exit_status_def console0_def)
  have l: "os_system_log ?w2 = [''pip3 install cairosvg'']"
    by (simp add: os_system_simps world2_import)
  show ?thesis
    using m e l by (simp add: i world2_import world2_after_pip)
qed

end
